theory Spec2Isabelle
  imports Complex_Main
begin

section \<open>Shared Python notions\<close>

text \<open>
  Strings are Python \<open>str\<close> values restricted to ASCII (one \<open>char\<close> per character);
  Reddit ids, SQL column names and the marker texts the code searches for are ASCII.
\<close>

text \<open>\<open>needle in haystack\<close> on strings.\<close>

fun contains :: "string \<Rightarrow> string \<Rightarrow> bool" where
  "contains needle [] = (needle = [])"
| "contains needle (c # cs) = (take (length needle) (c # cs) = needle \<or> contains needle cs)"

text \<open>\<open>s.startswith(p)\<close>.\<close>

definition startswith :: "string \<Rightarrow> string \<Rightarrow> bool" where
  "startswith s p = (take (length p) s = p)"

text \<open>\<open>str.lower()\<close> on ASCII letters.\<close>

definition lower_char :: "char \<Rightarrow> char" where
  "lower_char c =
     (let n = (of_char c :: nat) in if 65 \<le> n \<and> n \<le> 90 then char_of (n + 32) else c)"

definition lower :: "string \<Rightarrow> string" where
  "lower s = map lower_char s"

text \<open>
  An exception caught by \<open>except Exception\<close>: its \<open>str(e)\<close> and, when both
  \<open>e.response\<close> and \<open>e.response.status_code\<close> exist, that status code.
\<close>

record py_exception =
  exc_str :: string
  exc_status_code :: "int option"

section \<open>utils/rate\_limiting.py\<close>

subsection \<open>throttle\<close>








subsection \<open>with\_retry\<close>

datatype log_entry =
    LogRateLimit real int int
  | LogError string real int int
  | LogAllFailed int "string option"

text \<open>
  What leaves \<open>wrapper\<close> as an exception: the last error of the wrapped call, the
  \<open>TypeError\<close> of \<open>raise None\<close>, or an error raised inside the handler by the computation
  of the delay or by \<open>time.sleep\<close>.
\<close>

datatype retry_failure =
    Reraised py_exception
  | RaiseNoneTypeError
  | PowerOverflowError
  | SleepValueError
  | SleepOverflowError

record 'a retry_run =
  rr_result :: "retry_failure + 'a"
  rr_calls :: nat
  rr_sleeps :: "real list"
  rr_log :: "log_entry list"

definition is_rate_limit :: "py_exception \<Rightarrow> bool" where
  "is_rate_limit e =
     (case exc_status_code e of
        Some code \<Rightarrow> code = 429
      | None \<Rightarrow> contains ''429'' (exc_str e) \<or> contains ''rate limit'' (lower (exc_str e)))"

text \<open>
  \<open>backoff_factor ** n\<close> on a float raises \<open>OverflowError\<close> when the result is too large
  for a float, that is from \<open>2 ** 1024\<close> on.
\<close>

definition float_limit :: real where
  "float_limit = 2 ^ 1024"

definition float_pow :: "real \<Rightarrow> nat \<Rightarrow> real option" where
  "float_pow x n = (if \<bar>x ^ n\<bar> < float_limit then Some (x ^ n) else None)"

text \<open>
  \<open>time.sleep(d)\<close> converts \<open>d\<close> to a signed 64-bit count of nanoseconds and raises
  \<open>OverflowError\<close> when it does not fit (from about 9.2e9 seconds on, an infinite product
  included); it raises \<open>ValueError\<close> when \<open>d\<close> is negative.
\<close>

definition sleep_limit :: real where
  "sleep_limit = 2 ^ 63 / 10 ^ 9"

definition sleep_error :: "real \<Rightarrow> retry_failure option" where
  "sleep_error d =
     (if sleep_limit \<le> \<bar>d\<bar> then Some SleepOverflowError
      else if d < 0 then Some SleepValueError
      else None)"

text \<open>
  The code after the \<open>while\<close> loop: log, then \<open>raise last_exception\<close>; raising \<open>None\<close>
  is a \<open>TypeError\<close>.
\<close>

definition retries_exhausted ::
  "int \<Rightarrow> py_exception option \<Rightarrow> nat \<Rightarrow> real list \<Rightarrow> log_entry list \<Rightarrow> 'a retry_run" where
  "retries_exhausted max_retries last_exception calls sleeps logged =
     \<lparr>rr_result = (case last_exception of None \<Rightarrow> Inl RaiseNoneTypeError | Some e \<Rightarrow> Inl (Reraised e)),
      rr_calls = calls,
      rr_sleeps = sleeps,
      rr_log = logged @ [LogAllFailed max_retries (map_option exc_str last_exception)]\<rparr>"

text \<open>
  The \<open>while retries <= max_retries\<close> loop. The wrapped function is any stateful call:
  \<open>func n\<close> is the outcome of its invocation number \<open>n\<close> (counted from 0). The run records
  the number of invocations, the arguments of the calls of \<open>time.sleep\<close> that returned,
  and the log. An error of the power or of \<open>time.sleep\<close> is raised inside the handler,
  so it leaves the wrapper at once.
\<close>

function with_retry_loop ::
  "int \<Rightarrow> real \<Rightarrow> real \<Rightarrow> (nat \<Rightarrow> py_exception + 'a) \<Rightarrow>
   int \<Rightarrow> py_exception option \<Rightarrow> nat \<Rightarrow> real list \<Rightarrow> log_entry list \<Rightarrow> 'a retry_run" where
  "with_retry_loop max_retries base_delay backoff_factor func retries last_exception calls sleeps logged =
     (if retries \<le> max_retries then
        (case func calls of
           Inr v \<Rightarrow> \<lparr>rr_result = Inr v, rr_calls = Suc calls, rr_sleeps = sleeps, rr_log = logged\<rparr>
         | Inl e \<Rightarrow>
             (let retries' = retries + 1 in
              if retries' > max_retries
              then retries_exhausted max_retries (Some e) (Suc calls) sleeps logged
              else
                (case float_pow backoff_factor (nat (retries' - 1)) of
                   None \<Rightarrow> \<lparr>rr_result = Inl PowerOverflowError, rr_calls = Suc calls,
                            rr_sleeps = sleeps, rr_log = logged\<rparr>
                 | Some factor \<Rightarrow>
                     (let delay = base_delay * factor;
                          logged' = logged @ [if is_rate_limit e
                                              then LogRateLimit delay retries' max_retries
                                              else LogError (exc_str e) delay retries' max_retries]
                      in case sleep_error delay of
                           Some failure \<Rightarrow> \<lparr>rr_result = Inl failure, rr_calls = Suc calls,
                                            rr_sleeps = sleeps, rr_log = logged'\<rparr>
                         | None \<Rightarrow>
                             with_retry_loop max_retries base_delay backoff_factor func retries'
                               (Some e) (Suc calls) (sleeps @ [delay]) logged'))))
      else retries_exhausted max_retries last_exception calls sleeps logged)"
  by pat_completeness auto
termination
  by (relation "measure (\<lambda>(max_retries, base_delay, backoff_factor, func, retries, rest).
                  nat (max_retries + 1 - retries))") auto

declare with_retry_loop.simps [simp del]

definition with_retry ::
  "int \<Rightarrow> real \<Rightarrow> real \<Rightarrow> (nat \<Rightarrow> py_exception + 'a) \<Rightarrow> 'a retry_run" where
  "with_retry max_retries base_delay backoff_factor func =
     with_retry_loop max_retries base_delay backoff_factor func 0 None 0 [] []"

section \<open>storage/comment\_db.py\<close>

subsection \<open>The SQLite table\<close>

text \<open>
  A value stored in a column or bound to a \<open>?\<close> parameter. A row gives every column name a
  value; the table is the list of its rows in insertion order.
\<close>

datatype sqlval = SNull | SText string | SReal real | SInt int

type_synonym row = "string \<Rightarrow> sqlval"

type_synonym table = "row list"

datatype sql_error = IntegrityError | OperationalError string

text \<open>The schema created by \<open>_init_db\<close>: \<open>id\<close> is the primary key, \<open>comment_id\<close> is unique.\<close>

definition comments_columns :: "string list" where
  "comments_columns =
     [''id'', ''comment_id'', ''subreddit'', ''author'', ''body'', ''created_utc'', ''permalink'',
      ''key_term'', ''sentiment'', ''confidence'', ''ai_response'', ''status'', ''email_sent'',
      ''email_recipient'', ''timestamp'']"

text \<open>\<open>column = ?\<close> in a \<open>WHERE\<close> clause: a comparison with \<open>NULL\<close> is never true.\<close>

definition sql_eq :: "sqlval \<Rightarrow> sqlval \<Rightarrow> bool" where
  "sql_eq a b = (a \<noteq> SNull \<and> b \<noteq> SNull \<and> a = b)"

text \<open>
  A statement naming a column that the table does not have is rejected when it is prepared
  (\<open>sqlite3.OperationalError: no such column\<close>), whatever the rows are.
\<close>

definition unknown_column :: "string list \<Rightarrow> string option" where
  "unknown_column cols = List.find (\<lambda>c. c \<notin> set comments_columns) cols"

definition no_such_column :: "string \<Rightarrow> sql_error" where
  "no_such_column c = OperationalError (''no such column: '' @ c)"

fun assign :: "(string \<times> sqlval) list \<Rightarrow> row \<Rightarrow> row" where
  "assign [] r = r"
| "assign ((c, v) # cvs) r = assign cvs (r(c := v))"

text \<open>
  The two uniqueness constraints. SQLite treats \<open>NULL\<close>s as distinct from each other, so
  a \<open>NULL\<close> never violates them.
\<close>

definition unique_violation :: "row \<Rightarrow> table \<Rightarrow> bool" where
  "unique_violation r tbl =
     (\<exists>r' \<in> set tbl. sql_eq (r' ''id'') (r ''id'') \<or> sql_eq (r' ''comment_id'') (r ''comment_id''))"

text \<open>\<open>INSERT INTO comments (columns) VALUES (values)\<close>.\<close>

definition sql_insert :: "(string \<times> sqlval) list \<Rightarrow> table \<Rightarrow> sql_error + table" where
  "sql_insert cvs tbl =
     (case unknown_column (map fst cvs) of
        Some c \<Rightarrow> Inl (no_such_column c)
      | None \<Rightarrow>
          (let r = assign cvs (\<lambda>c. SNull)
           in if unique_violation r tbl then Inl IntegrityError else Inr (tbl @ [r])))"

text \<open>
  \<open>UPDATE comments SET columns = values WHERE wcol = wval\<close>; the result carries
  \<open>cursor.rowcount\<close>, the number of rows matched. None of the updates of this module
  assigns \<open>id\<close> or \<open>comment_id\<close>, so an update cannot violate uniqueness.
\<close>

definition sql_update ::
  "(string \<times> sqlval) list \<Rightarrow> string \<Rightarrow> sqlval \<Rightarrow> table \<Rightarrow> sql_error + (table \<times> nat)" where
  "sql_update cvs wcol wval tbl =
     (case unknown_column (map fst cvs @ [wcol]) of
        Some c \<Rightarrow> Inl (no_such_column c)
      | None \<Rightarrow>
          Inr (map (\<lambda>r. if sql_eq (r wcol) wval then assign cvs r else r) tbl,
               length (filter (\<lambda>r. sql_eq (r wcol) wval) tbl)))"

text \<open>\<open>SELECT ... WHERE wcol = wval\<close> followed by \<open>fetchone()\<close>.\<close>

definition sql_select_one :: "string \<Rightarrow> sqlval \<Rightarrow> table \<Rightarrow> row option" where
  "sql_select_one wcol wval tbl = List.find (\<lambda>r. sql_eq (r wcol) wval) tbl"

text \<open>
  SQLite's \<open>LIKE\<close>: \<open>%\<close> matches any run of characters, \<open>_\<close> any one character, and
  letters match without regard to case. The first argument is the pattern.
\<close>

fun like :: "string \<Rightarrow> string \<Rightarrow> bool" where
  "like [] [] = True"
| "like [] (c # cs) = False"
| "like (p # ps) [] = (p = CHR ''%'' \<and> like ps [])"
| "like (p # ps) (c # cs) =
     (if p = CHR ''%'' then like ps (c # cs) \<or> like (p # ps) cs
      else if p = CHR ''_'' then like ps cs
      else lower_char p = lower_char c \<and> like ps cs)"

text \<open>\<open>SELECT ... WHERE wcol LIKE pattern\<close> followed by \<open>fetchone()\<close>.\<close>

definition sql_select_like :: "string \<Rightarrow> string \<Rightarrow> table \<Rightarrow> row option" where
  "sql_select_like wcol pattern tbl =
     List.find (\<lambda>r. case r wcol of SText s \<Rightarrow> like pattern s | _ \<Rightarrow> False) tbl"

subsection \<open>CommentDatabase\<close>

text \<open>
  The \<open>comment_data\<close> dictionary: a field is \<open>None\<close> when the key is missing, so that
  \<open>comment_data.get(key, default)\<close> is the default.
\<close>

record comment_data =
  cd_id :: "string option"
  cd_subreddit :: "string option"
  cd_author :: "string option"
  cd_body :: "string option"
  cd_created_utc :: "real option"
  cd_permalink :: "string option"

definition opt_text :: "string option \<Rightarrow> sqlval" where
  "opt_text s = (case s of None \<Rightarrow> SNull | Some t \<Rightarrow> SText t)"

definition get_text :: "string option \<Rightarrow> string \<Rightarrow> sqlval" where
  "get_text field dflt = (case field of None \<Rightarrow> SText dflt | Some t \<Rightarrow> SText t)"

text \<open>The thirteen columns that both the insert and the update of \<open>add_comment\<close> write.\<close>

definition comment_columns ::
  "comment_data \<Rightarrow> string \<Rightarrow> sqlval \<Rightarrow> sqlval \<Rightarrow> string option \<Rightarrow> string \<Rightarrow> bool \<Rightarrow>
   string option \<Rightarrow> real \<Rightarrow> (string \<times> sqlval) list" where
  "comment_columns cd key_term sentiment confidence ai_response status email_sent email_recipient now =
     [(''subreddit'', get_text (cd_subreddit cd) []),
      (''author'', get_text (cd_author cd) []),
      (''body'', get_text (cd_body cd) []),
      (''created_utc'', (case cd_created_utc cd of None \<Rightarrow> SInt 0 | Some t \<Rightarrow> SReal t)),
      (''permalink'', get_text (cd_permalink cd) []),
      (''key_term'', SText key_term),
      (''sentiment'', sentiment),
      (''confidence'', confidence),
      (''ai_response'', opt_text ai_response),
      (''status'', SText status),
      (''email_sent'', SInt (if email_sent then 1 else 0)),
      (''email_recipient'', opt_text email_recipient),
      (''timestamp'', SReal now)]"

text \<open>
  \<open>add_comment\<close>. \<open>uuid4\<close> is the value of \<open>str(uuid.uuid4())\<close> and \<open>now\<close> that of
  \<open>time.time()\<close>. Only \<open>sqlite3.IntegrityError\<close> is caught; the result is the returned id
  and the new table.
\<close>

definition add_comment ::
  "comment_data \<Rightarrow> string \<Rightarrow> sqlval \<Rightarrow> sqlval \<Rightarrow> string option \<Rightarrow> string \<Rightarrow> bool \<Rightarrow>
   string option \<Rightarrow> string \<Rightarrow> real \<Rightarrow> table \<Rightarrow> sql_error + (sqlval \<times> table)" where
  "add_comment cd key_term sentiment confidence ai_response status email_sent email_recipient
     uuid4 now tbl =
     (let comment_id = opt_text (cd_id cd);
          cols = comment_columns cd key_term sentiment confidence ai_response status email_sent
                   email_recipient now
      in case sql_insert ((''id'', SText uuid4) # (''comment_id'', comment_id) # cols) tbl of
           Inr tbl' \<Rightarrow> Inr (SText uuid4, tbl')
         | Inl IntegrityError \<Rightarrow>
             (case sql_update cols ''comment_id'' comment_id tbl of
                Inl e \<Rightarrow> Inl e
              | Inr (tbl', n) \<Rightarrow>
                  (case sql_select_one ''comment_id'' comment_id tbl' of
                     Some r \<Rightarrow> Inr (r ''id'', tbl')
                   | None \<Rightarrow> Inr (SText uuid4, tbl')))
         | Inl e \<Rightarrow> Inl e)"

text \<open>The row that the \<open>INSERT\<close> of \<open>add_comment\<close> builds.\<close>

definition inserted_row ::
  "comment_data \<Rightarrow> string \<Rightarrow> sqlval \<Rightarrow> sqlval \<Rightarrow> string option \<Rightarrow> string \<Rightarrow> bool \<Rightarrow>
   string option \<Rightarrow> string \<Rightarrow> real \<Rightarrow> row" where
  "inserted_row cd key_term sentiment confidence ai_response status email_sent email_recipient
     uuid4 now =
     assign ((''id'', SText uuid4) # (''comment_id'', opt_text (cd_id cd)) #
             comment_columns cd key_term sentiment confidence ai_response status email_sent
               email_recipient now)
       (\<lambda>c. SNull)"

definition update_comment_status :: "string \<Rightarrow> string \<Rightarrow> table \<Rightarrow> sql_error + (bool \<times> table)" where
  "update_comment_status comment_id status tbl =
     (case sql_update [(''status'', SText status)] ''id'' (SText comment_id) tbl of
        Inl e \<Rightarrow> Inl e
      | Inr (tbl', rowcount) \<Rightarrow> Inr (rowcount > 0, tbl'))"

text \<open>Python truthiness of an \<open>Optional[str]\<close>: \<open>None\<close> and \<open>""\<close> are false.\<close>

definition truthy :: "string option \<Rightarrow> bool" where
  "truthy s = (case s of None \<Rightarrow> False | Some t \<Rightarrow> t \<noteq> [])"

definition update_comment_approval ::
  "string \<Rightarrow> bool \<Rightarrow> string option \<Rightarrow> table \<Rightarrow> sql_error + (bool \<times> table)" where
  "update_comment_approval comment_id approved final_response tbl =
     (let status = (if approved then ''approved'' else ''rejected'');
          updated =
            (if approved then
               (let response_to_use =
                      (if truthy final_response then final_response
                       else (case sql_select_one ''id'' (SText comment_id) tbl of
                               None \<Rightarrow> final_response
                             | Some row \<Rightarrow>
                                 (case row ''ai_response'' of
                                    SText s \<Rightarrow> if s \<noteq> [] then Some s else final_response
                                  | _ \<Rightarrow> final_response)))
                in if truthy response_to_use
                   then sql_update [(''status'', SText status), (''human_approved'', SInt 1),
                                    (''final_response'', opt_text response_to_use)]
                          ''id'' (SText comment_id) tbl
                   else sql_update [(''status'', SText status), (''human_approved'', SInt 1)]
                          ''id'' (SText comment_id) tbl)
             else sql_update [(''status'', SText status), (''human_approved'', SInt 0)]
                    ''id'' (SText comment_id) tbl)
      in case updated of
           Inl e \<Rightarrow> Inl e
         | Inr (tbl', rowcount) \<Rightarrow> Inr (rowcount > 0, tbl'))"

definition mark_email_sent :: "string \<Rightarrow> string \<Rightarrow> table \<Rightarrow> sql_error + (bool \<times> table)" where
  "mark_email_sent comment_id email_recipient tbl =
     (case sql_update [(''email_sent'', SInt 1), (''email_recipient'', SText email_recipient)]
             ''id'' (SText comment_id) tbl of
        Inl e \<Rightarrow> Inl e
      | Inr (tbl', rowcount) \<Rightarrow> Inr (rowcount > 0, tbl'))"

definition get_comment :: "string \<Rightarrow> table \<Rightarrow> row option" where
  "get_comment comment_id tbl = sql_select_one ''id'' (SText comment_id) tbl"

definition found :: "row option \<Rightarrow> bool" where
  "found result = (case result of None \<Rightarrow> False | Some r \<Rightarrow> True)"

text \<open>The two other spellings of an id that \<open>comment_exists\<close> computes.\<close>

definition prefixed_id :: "string \<Rightarrow> string" where
  "prefixed_id reddit_comment_id =
     (if startswith reddit_comment_id ''t1_'' then reddit_comment_id else ''t1_'' @ reddit_comment_id)"

definition stripped_id :: "string \<Rightarrow> string" where
  "stripped_id reddit_comment_id =
     (if startswith reddit_comment_id ''t1_'' then drop 3 reddit_comment_id else reddit_comment_id)"

definition comment_exists :: "string \<Rightarrow> table \<Rightarrow> bool" where
  "comment_exists reddit_comment_id tbl =
     (if reddit_comment_id = [] then False
      else if found (sql_select_one ''comment_id'' (SText reddit_comment_id) tbl) then True
      else if reddit_comment_id \<noteq> prefixed_id reddit_comment_id
              \<and> found (sql_select_one ''comment_id'' (SText (prefixed_id reddit_comment_id)) tbl)
           then True
      else if reddit_comment_id \<noteq> stripped_id reddit_comment_id
              \<and> found (sql_select_one ''comment_id'' (SText (stripped_id reddit_comment_id)) tbl)
           then True
      else if found (sql_select_like ''comment_id'' (''%'' @ stripped_id reddit_comment_id @ ''%'') tbl)
           then True
      else False)"

subsection \<open>Ingestion: the dedup check followed by add\_comment\<close>

text \<open>
  One pass of the monitor's loop over a fetched comment, with the outcome of the analysis
  given: the comment is skipped when \<open>comment_exists\<close> answers true and is handed to
  \<open>add_comment\<close> otherwise. \<open>comment["id"]\<close> raises \<open>KeyError\<close> on a comment without id,
  and a database error is caught and logged; both leave the table as it was.
\<close>

record ingestion =
  ig_comment :: comment_data
  ig_key_term :: string
  ig_sentiment :: sqlval
  ig_confidence :: sqlval
  ig_ai_response :: "string option"
  ig_status :: string
  ig_uuid4 :: string
  ig_now :: real

definition ingest :: "table \<Rightarrow> ingestion \<Rightarrow> table" where
  "ingest tbl g =
     (case cd_id (ig_comment g) of
        None \<Rightarrow> tbl
      | Some comment_id \<Rightarrow>
          if comment_exists comment_id tbl then tbl
          else (case add_comment (ig_comment g) (ig_key_term g) (ig_sentiment g) (ig_confidence g)
                       (ig_ai_response g) (ig_status g) False None (ig_uuid4 g) (ig_now g) tbl of
                  Inl e \<Rightarrow> tbl
                | Inr (i, tbl') \<Rightarrow> tbl'))"

definition ingest_all :: "table \<Rightarrow> ingestion list \<Rightarrow> table" where
  "ingest_all tbl gs = foldl ingest tbl gs"

text \<open>The CommentRecords of a natural id \<open>b\<close>: the rows stored under \<open>b\<close> or under \<open>t1_b\<close>.\<close>

definition records_of :: "string \<Rightarrow> table \<Rightarrow> row list" where
  "records_of b tbl =
     filter (\<lambda>r. r ''comment_id'' = SText b \<or> r ''comment_id'' = SText (''t1_'' @ b)) tbl"

section \<open>workflows/sentiment\_workflow.py\<close>

subsection \<open>Values and state\<close>

text \<open>
  Values of the result dictionaries, and a dictionary as the list of its items
  (\<open>map_of\<close> looks a key up; the empty list is the empty, falsy dictionary).
\<close>

datatype pyval = PNone | PStr string | PNum real

type_synonym pydict = "(string \<times> pyval) list"

record CommentState =
  comment_id :: string
  comment_text :: string
  subreddit :: string
  author :: string
  permalink :: string
  sentiment_result :: "pydict option"
  response_draft :: "string option"
  human_approved :: "bool option"
  final_response :: "string option"
  created_at :: real
  analyzed_at :: "real option"

subsection \<open>WorkflowStateManager\<close>

text \<open>The directory of pickled states, one file per comment id.\<close>

type_synonym state_store = "string \<rightharpoonup> CommentState"

definition save_state :: "string \<Rightarrow> CommentState \<Rightarrow> state_store \<Rightarrow> state_store" where
  "save_state cid state store = store(cid \<mapsto> state)"

definition load_state :: "string \<Rightarrow> state_store \<Rightarrow> CommentState option" where
  "load_state cid store = store cid"

definition delete_state :: "string \<Rightarrow> state_store \<Rightarrow> bool \<times> state_store" where
  "delete_state cid store =
     (case store cid of None \<Rightarrow> (False, store) | Some s \<Rightarrow> (True, store(cid := None)))"

subsection \<open>The collaborators\<close>

text \<open>
  What the workflow calls and cannot compute itself: the language-model chain of the
  analyze node (its construction may raise, and so may its invocation), the response
  generator, the graph runtime asked to resume a saved state, the notifier, and the values
  of \<open>uuid.uuid4()\<close> and \<open>time.time()\<close>.
\<close>

record services =
  sv_chain_error :: "py_exception option"
  sv_classifier :: "string \<Rightarrow> py_exception + pydict"
  sv_drafter :: "CommentState \<Rightarrow> py_exception + string option"
  sv_compile_error :: "py_exception option"
  sv_resume_run :: "CommentState \<Rightarrow> py_exception + CommentState"
  sv_send_alert :: "string \<Rightarrow> string \<Rightarrow> py_exception + bool"
  sv_uuid4 :: string
  sv_now :: real

subsection \<open>The nodes\<close>

definition api_error_result :: "py_exception \<Rightarrow> pydict" where
  "api_error_result api_error =
     [(''sentiment'', PStr ''neutral''),
      (''confidence'', PNum (1/2)),
      (''explanation'',
         PStr (''Failed to analyze due to API error: '' @ take 100 (exc_str api_error) @ ''...''))]"

definition error_result :: "py_exception \<Rightarrow> pydict" where
  "error_result e =
     [(''sentiment'', PStr ''neutral''),
      (''confidence'', PNum (1/2)),
      (''explanation'',
         PStr (''Failed to analyze due to error: '' @ take 100 (exc_str e) @ ''...''))]"

definition key_error :: "string \<Rightarrow> py_exception" where
  "key_error k = \<lparr>exc_str = [CHR 0x27] @ k @ [CHR 0x27], exc_status_code = None\<rparr>"

text \<open>
  The log line of the analyze node reads \<open>result['sentiment']\<close> and formats
  \<open>result['confidence']\<close> with \<open>:.2f\<close>: a missing key raises \<open>KeyError\<close>, a confidence
  that is not a number raises on formatting.
\<close>

definition log_sentiment :: "pydict \<Rightarrow> py_exception option" where
  "log_sentiment result =
     (case map_of result ''sentiment'' of
        None \<Rightarrow> Some (key_error ''sentiment'')
      | Some s \<Rightarrow>
          (case map_of result ''confidence'' of
             None \<Rightarrow> Some (key_error ''confidence'')
           | Some (PNum c) \<Rightarrow> None
           | Some (PStr t) \<Rightarrow>
               Some \<lparr>exc_str = ''Unknown format code f for object of type str'',
                     exc_status_code = None\<rparr>
           | Some PNone \<Rightarrow>
               Some \<lparr>exc_str = ''unsupported format string passed to NoneType.__format__'',
                     exc_status_code = None\<rparr>))"

text \<open>The body of the outer \<open>try\<close> of \<open>analyze_sentiment\<close>.\<close>

definition analyze_sentiment_try :: "services \<Rightarrow> CommentState \<Rightarrow> py_exception + CommentState" where
  "analyze_sentiment_try sv state =
     (case sv_chain_error sv of
        Some e \<Rightarrow> Inl e
      | None \<Rightarrow>
          (let result = (case sv_classifier sv (comment_text state) of
                           Inl api_error \<Rightarrow> api_error_result api_error
                         | Inr r \<Rightarrow> r);
               state' = state\<lparr>sentiment_result := Some result, analyzed_at := Some (sv_now sv)\<rparr>
           in case log_sentiment result of Some e \<Rightarrow> Inl e | None \<Rightarrow> Inr state'))"

text \<open>\<open>analyze_sentiment\<close> with its outer handler: \<open>Inl\<close> would be an exception leaving it.\<close>

definition analyze_sentiment :: "services \<Rightarrow> CommentState \<Rightarrow> py_exception + CommentState" where
  "analyze_sentiment sv state =
     (case analyze_sentiment_try sv state of
        Inr state' \<Rightarrow> Inr state'
      | Inl e \<Rightarrow> Inr (state\<lparr>sentiment_result := Some (error_result e),
                             analyzed_at := Some (sv_now sv)\<rparr>))"

text \<open>A node returns a state or the sentinel \<open>END\<close>.\<close>

datatype node_result = NodeState CommentState | NodeEnd

definition fallback_response :: string where
  "fallback_response =
     ''I noticed your concerns and would like to help. Please contact our customer service team for assistance.''"

definition generate_response :: "services \<Rightarrow> CommentState \<Rightarrow> node_result" where
  "generate_response sv state =
     (if (case sentiment_result state of
            None \<Rightarrow> True
          | Some d \<Rightarrow> d = [] \<or> map_of d ''sentiment'' \<noteq> Some (PStr ''negative''))
      then NodeEnd
      else (case sv_drafter sv state of
              Inr response \<Rightarrow> NodeState (state\<lparr>response_draft := response\<rparr>)
            | Inl e \<Rightarrow> NodeState (state\<lparr>response_draft := Some fallback_response\<rparr>)))"

definition human_approval :: "CommentState \<Rightarrow> node_result" where
  "human_approval state =
     (if \<not> truthy (response_draft state) then NodeEnd
      else NodeState (state\<lparr>human_approved := None\<rparr>))"

definition finalize_response :: "CommentState \<Rightarrow> CommentState" where
  "finalize_response state =
     (if human_approved state \<noteq> Some True then state
      else state\<lparr>final_response := response_draft state\<rparr>)"

subsection \<open>The graph and process\_comment\<close>

text \<open>
  The runtime's error for a node that returns \<open>END\<close> instead of a state update, as
  \<open>tests/test_workflow_end.py\<close> and the handler of \<open>process_comment\<close> record it.
\<close>

definition invalid_update_error :: py_exception where
  "invalid_update_error =
     \<lparr>exc_str = ''Expected dict, got __end__'' @ [CHR 0x0A]
                 @ ''For troubleshooting, visit: https://python.langchain.com/docs/troubleshooting/errors/INVALID_GRAPH_NODE_RETURN_VALUE'',
      exc_status_code = None\<rparr>"

text \<open>
  A run of the compiled graph of \<open>create_sentiment_workflow\<close> from its entry point:
  analyze, generate, approve, finalize.
\<close>

definition run_workflow :: "services \<Rightarrow> CommentState \<Rightarrow> py_exception + CommentState" where
  "run_workflow sv initial_state =
     (case sv_compile_error sv of
        Some e \<Rightarrow> Inl e
      | None \<Rightarrow>
          (case analyze_sentiment sv initial_state of
             Inl e \<Rightarrow> Inl e
           | Inr analyzed \<Rightarrow>
               (case generate_response sv analyzed of
                  NodeEnd \<Rightarrow> Inl invalid_update_error
                | NodeState generated \<Rightarrow>
                    (case human_approval generated of
                       NodeEnd \<Rightarrow> Inl invalid_update_error
                     | NodeState awaiting \<Rightarrow> Inr (finalize_response awaiting)))))"

text \<open>The comment dictionary handed to the workflow; all six keys are read.\<close>

record item =
  it_id :: string
  it_body :: string
  it_subreddit :: string
  it_author :: string
  it_permalink :: string
  it_created_utc :: real

text \<open>The dictionary returned by \<open>process_comment\<close> and \<open>resume_workflow_after_approval\<close>.\<close>

record workflow_result =
  wr_comment_id :: string
  wr_sentiment :: "pydict option"
  wr_response_draft :: "string option"
  wr_human_approved :: "bool option"
  wr_final_response :: "string option"
  wr_analyzed_at :: "real option"
  wr_error :: "string option"

text \<open>
  The \<open>CommentState\<close> that \<open>process_comment\<close> builds from the comment. The runtime
  hands every node a state object of its own, built from the values of the previous step,
  so this object still holds these values when \<open>process_comment\<close> saves it.
\<close>

definition initial_state :: "item \<Rightarrow> CommentState" where
  "initial_state comment_data =
     \<lparr>comment_id = it_id comment_data, comment_text = it_body comment_data,
      subreddit = it_subreddit comment_data, author = it_author comment_data,
      permalink = it_permalink comment_data, sentiment_result = None,
      response_draft = None, human_approved = None, final_response = None,
      created_at = it_created_utc comment_data, analyzed_at = None\<rparr>"

definition process_comment ::
  "services \<Rightarrow> item \<Rightarrow> state_store \<Rightarrow> workflow_result \<times> state_store" where
  "process_comment sv comment_data store =
     (let initial_state = initial_state comment_data
      in case run_workflow sv initial_state of
           Inr final_state \<Rightarrow>
             (\<lparr>wr_comment_id = comment_id final_state,
               wr_sentiment = sentiment_result final_state,
               wr_response_draft = response_draft final_state,
               wr_human_approved = human_approved final_state,
               wr_final_response = final_response final_state,
               wr_analyzed_at = analyzed_at final_state,
               wr_error = None\<rparr>,
              if human_approved final_state = None \<and> truthy (response_draft final_state)
              then save_state (it_id comment_data) initial_state store
              else store)
         | Inl e \<Rightarrow>
             if contains ''INVALID_GRAPH_NODE_RETURN_VALUE'' (exc_str e)
                \<and> contains ''Expected dict, got __end__'' (exc_str e)
             then (\<lparr>wr_comment_id = it_id comment_data,
                     wr_sentiment = Some [(''sentiment'', PStr ''non-negative''),
                                          (''confidence'', PNum 0),
                                          (''explanation'',
                                             PStr ''Comment was determined to be non-negative'')],
                     wr_response_draft = None,
                     wr_human_approved = None,
                     wr_final_response = None,
                     wr_analyzed_at = Some (sv_now sv),
                     wr_error = None\<rparr>, store)
             else (\<lparr>wr_comment_id = it_id comment_data,
                     wr_sentiment = Some [(''sentiment'', PStr ''unknown''),
                                          (''confidence'', PNum 0),
                                          (''explanation'', PStr (''Error: '' @ exc_str e))],
                     wr_response_draft = Some fallback_response,
                     wr_human_approved = None,
                     wr_final_response = None,
                     wr_analyzed_at = Some (sv_now sv),
                     wr_error = Some (exc_str e)\<rparr>, store))"

subsection \<open>resume\_workflow\_after\_approval\<close>

text \<open>
  The runtime's answer to \<open>app.ainvoke(state, dataflow="finalize")\<close>: \<open>ainvoke\<close> hands
  the keyword arguments it does not know to \<open>astream\<close>, which has no parameter
  \<open>dataflow\<close>, so the call raises \<open>TypeError\<close> before any node runs.
\<close>

definition unexpected_keyword_error :: py_exception where
  "unexpected_keyword_error =
     \<lparr>exc_str = ''Pregel.astream() got an unexpected keyword argument ''
                 @ [CHR 0x27] @ ''dataflow'' @ [CHR 0x27],
      exc_status_code = None\<rparr>"

text \<open>
  The saved state is loaded, marked with the decision and handed to the graph runtime
  (\<open>sv_resume_run\<close>: compiling the graph and \<open>ainvoke\<close>, both inside the \<open>try\<close>). When
  the run returns, the stored state is deleted; when it raises, the handler answers from
  the loaded state and the stored state stays.
\<close>

definition resume_workflow_after_approval ::
  "services \<Rightarrow> string \<Rightarrow> bool \<Rightarrow> state_store \<Rightarrow> workflow_result option \<times> state_store" where
  "resume_workflow_after_approval sv cid approved store =
     (case load_state cid store of
        None \<Rightarrow> (None, store)
      | Some loaded \<Rightarrow>
          (let state = loaded\<lparr>human_approved := Some approved\<rparr>
           in case sv_resume_run sv state of
                Inr final_state \<Rightarrow>
                  (Some \<lparr>wr_comment_id = cid,
                         wr_sentiment = sentiment_result final_state,
                         wr_response_draft = response_draft final_state,
                         wr_human_approved = human_approved final_state,
                         wr_final_response = final_response final_state,
                         wr_analyzed_at = analyzed_at final_state,
                         wr_error = None\<rparr>,
                   snd (delete_state cid store))
              | Inl e \<Rightarrow>
                  (Some \<lparr>wr_comment_id = cid,
                         wr_sentiment = sentiment_result state,
                         wr_response_draft = response_draft state,
                         wr_human_approved = Some approved,
                         wr_final_response = (if approved then response_draft state else None),
                         wr_analyzed_at = Some (sv_now sv),
                         wr_error = Some (exc_str e)\<rparr>,
                   store)))"

section \<open>monitoring.py\<close>

text \<open>
  Everything the monitor changes: the comments table, the saved workflow states, the
  calls made to the notifier (recipient and comment id) and the replies posted.
\<close>

record world =
  comments :: table
  workflow_states :: state_store
  alerts :: "(string \<times> string) list"
  posted :: "(sqlval \<times> string) list"

definition to_sql :: "pyval \<Rightarrow> sqlval" where
  "to_sql v = (case v of PNone \<Rightarrow> SNull | PStr s \<Rightarrow> SText s | PNum x \<Rightarrow> SReal x)"

definition item_data :: "item \<Rightarrow> comment_data" where
  "item_data comment =
     \<lparr>cd_id = Some (it_id comment), cd_subreddit = Some (it_subreddit comment),
      cd_author = Some (it_author comment), cd_body = Some (it_body comment),
      cd_created_utc = Some (it_created_utc comment), cd_permalink = Some (it_permalink comment)\<rparr>"

text \<open>
  The database write of \<open>RedditMonitor.process_comment\<close>, inside its own \<open>try\<close>: reading
  the two keys of the sentiment dictionary may raise \<open>KeyError\<close>, \<open>add_comment\<close> may raise;
  either is logged and the table stays as it was.
\<close>

definition store_results ::
  "services \<Rightarrow> string \<Rightarrow> item \<Rightarrow> pydict \<Rightarrow> string option \<Rightarrow> table \<Rightarrow> table" where
  "store_results sv key_term comment sentiment draft tbl =
     (case map_of sentiment ''sentiment'' of
        None \<Rightarrow> tbl
      | Some s \<Rightarrow>
          (case map_of sentiment ''confidence'' of
             None \<Rightarrow> tbl
           | Some c \<Rightarrow>
               (case add_comment (item_data comment) key_term (to_sql s) (to_sql c) draft
                       ''pending_approval'' False None (sv_uuid4 sv) (sv_now sv) tbl of
                  Inl e \<Rightarrow> tbl
                | Inr (i, tbl') \<Rightarrow> tbl')))"

text \<open>
  The alert of \<open>RedditMonitor.process_comment\<close>: sent for a negative comment with a draft;
  on success the row whose internal id equals the comment's id is marked.
\<close>

definition send_email ::
  "services \<Rightarrow> string \<Rightarrow> item \<Rightarrow> pydict \<Rightarrow> string option \<Rightarrow> world \<Rightarrow> world" where
  "send_email sv email comment sentiment draft w =
     (if map_of sentiment ''sentiment'' = Some (PStr ''negative'') \<and> truthy draft
      then (let w' = w\<lparr>alerts := alerts w @ [(email, it_id comment)]\<rparr>
            in case sv_send_alert sv email (it_id comment) of
                 Inr True \<Rightarrow>
                   (case mark_email_sent (it_id comment) email (comments w') of
                      Inl e \<Rightarrow> w'
                    | Inr (updated, tbl') \<Rightarrow> w'\<lparr>comments := tbl'\<rparr>)
               | Inr False \<Rightarrow> w'
               | Inl e \<Rightarrow> w')
      else w)"

definition monitor_process_comment :: "services \<Rightarrow> string \<Rightarrow> string \<Rightarrow> item \<Rightarrow> world \<Rightarrow> world" where
  "monitor_process_comment sv key_term email comment w =
     (let (result, store') = process_comment sv comment (workflow_states w);
          w1 = w\<lparr>workflow_states := store'\<rparr>
      in case wr_sentiment result of
           None \<Rightarrow> w1
         | Some sentiment \<Rightarrow>
             if sentiment = [] then w1
             else (let w2 = w1\<lparr>comments := store_results sv key_term comment sentiment
                                             (wr_response_draft result) (comments w1)\<rparr>
                   in send_email sv email comment sentiment (wr_response_draft result) w2))"

text \<open>
  \<open>handle_response_approval\<close>. An error of \<open>update_comment_approval\<close> is caught and
  logged; \<open>posted\<close> records the replies handed to the poster, whose own failure is
  caught and logged as well.
\<close>

definition handle_response_approval ::
  "services \<Rightarrow> string \<Rightarrow> bool \<Rightarrow> world \<Rightarrow> bool \<times> world" where
  "handle_response_approval sv cid approved w =
     (case resume_workflow_after_approval sv cid approved (workflow_states w) of
        (None, store') \<Rightarrow> (False, w\<lparr>workflow_states := store'\<rparr>)
      | (Some final_state, store') \<Rightarrow>
          (let w1 = w\<lparr>workflow_states := store'\<rparr>;
               response = wr_final_response final_state;
               w2 = (case update_comment_approval cid approved
                            (if approved then response else None) (comments w1) of
                       Inl db_error \<Rightarrow> w1
                     | Inr (updated, tbl') \<Rightarrow> w1\<lparr>comments := tbl'\<rparr>)
           in if approved \<and> truthy response
              then (case get_comment cid (comments w2) of
                      Some row \<Rightarrow>
                        (case response of
                           Some text \<Rightarrow>
                             (True, w2\<lparr>posted := posted w2 @ [(row ''comment_id'', text)]\<rparr>)
                         | None \<Rightarrow> (True, w2))
                    | None \<Rightarrow> (True, w2))
              else (True, w2)))"

section \<open>The specified approval\<close>


section \<open>Example inputs\<close>

text \<open>A negative comment with the given Reddit id, as the monitor hands it to the store.\<close>

definition example_ingestion :: "string \<Rightarrow> string \<Rightarrow> ingestion" where
  "example_ingestion reddit_id uuid =
     \<lparr>ig_comment = \<lparr>cd_id = Some reddit_id, cd_subreddit = Some ''business'',
                     cd_author = Some ''alice'', cd_body = Some ''Your product broke'',
                     cd_created_utc = Some 1700000000, cd_permalink = Some ''/r/business/1''\<rparr>,
      ig_key_term = ''acme'', ig_sentiment = SText ''negative'', ig_confidence = SReal (9/10),
      ig_ai_response = Some ''We apologise for the trouble.'', ig_status = ''pending_approval'',
      ig_uuid4 = uuid, ig_now = 1700000100\<rparr>"

text \<open>
  Collaborators that answer every text with the given classification, draft one fixed
  reply and deliver every alert; the graph runtime rejects the keyword \<open>dataflow\<close> of the
  resumed run.
\<close>

definition example_services :: "pydict \<Rightarrow> services" where
  "example_services classification =
     \<lparr>sv_chain_error = None,
      sv_classifier = (\<lambda>text. Inr classification),
      sv_drafter = (\<lambda>state. Inr (Some ''We apologise for the trouble.'')),
      sv_compile_error = None,
      sv_resume_run = (\<lambda>state. Inl unexpected_keyword_error),
      sv_send_alert = (\<lambda>recipient cid. Inr True),
      sv_uuid4 = ''u1'',
      sv_now = 1700000100\<rparr>"

definition example_positive :: pydict where
  "example_positive =
     [(''sentiment'', PStr ''positive''), (''confidence'', PNum (9/10)),
      (''explanation'', PStr ''The comment expresses satisfaction.'')]"

definition example_negative :: pydict where
  "example_negative =
     [(''sentiment'', PStr ''negative''), (''confidence'', PNum (9/10)),
      (''explanation'', PStr ''The comment expresses dissatisfaction.'')]"

definition example_item :: "string \<Rightarrow> string \<Rightarrow> item" where
  "example_item reddit_id body =
     \<lparr>it_id = reddit_id, it_body = body, it_subreddit = ''business'', it_author = ''alice'',
      it_permalink = ''/r/business/1'', it_created_utc = 1700000000\<rparr>"

definition empty_world :: world where
  "empty_world = \<lparr>comments = [], workflow_states = Map.empty, alerts = [], posted = []\<rparr>"

section \<open>Properties of the rate-limiting decorators\<close>








lemma with_retry_loop_all_fail:
  assumes "\<forall>n. func n = Inl (errs n)" "0 \<le> retries" "retries \<le> mr"
    and "\<forall>j. nat retries \<le> j \<and> j < nat mr
            \<longrightarrow> float_pow bf j \<noteq> None \<and> sleep_error (bd * bf ^ j) = None"
  shows "rr_result (with_retry_loop mr bd bf func retries lst calls sleeps logged)
           = Inl (Reraised (errs (calls + nat (mr - retries))))
       \<and> rr_calls (with_retry_loop mr bd bf func retries lst calls sleeps logged)
           = calls + nat (mr - retries) + 1
       \<and> rr_sleeps (with_retry_loop mr bd bf func retries lst calls sleeps logged)
           = sleeps @ map (\<lambda>j. bd * bf ^ j) [nat retries..<nat mr]"
  using assms
proof (induction "nat (mr - retries)" arbitrary: retries lst calls sleeps logged)
  case 0
  then have eq: "retries = mr" by simp
  have "with_retry_loop mr bd bf func retries lst calls sleeps logged
      = retries_exhausted mr (Some (errs calls)) (Suc calls) sleeps logged"
    using eq 0(2) by (subst with_retry_loop.simps) (simp add: Let_def)
  then show ?case using eq by (simp add: retries_exhausted_def)
next
  case (Suc n)
  then have lt: "retries < mr" by simp
  have here: "float_pow bf (nat retries) \<noteq> None \<and> sleep_error (bd * bf ^ nat retries) = None"
    using Suc.prems(4) lt Suc.prems(2) by simp
  then have pow: "float_pow bf (nat retries) = Some (bf ^ nat retries)"
    by (simp add: float_pow_def split: if_splits)
  have n: "n = nat (mr - (retries + 1))" using Suc.hyps(2) by simp
  have up: "[nat retries..<nat mr] = nat retries # [nat (retries + 1)..<nat mr]"
    using lt Suc.prems by (simp add: upt_conv_Cons nat_add_distrib)
  have calls: "nat (mr - retries) = Suc (nat (mr - (retries + 1)))"
    using lt by simp
  have rest: "\<forall>j. nat (retries + 1) \<le> j \<and> j < nat mr
            \<longrightarrow> float_pow bf j \<noteq> None \<and> sleep_error (bd * bf ^ j) = None"
    using Suc.prems(4) Suc.prems(2) by (simp add: nat_add_distrib)
  have r1: "0 \<le> retries + 1" "retries + 1 \<le> mr" using lt Suc.prems by simp_all
  note IH = Suc.hyps(1)[OF n Suc.prems(1) r1 rest, of "Some (errs calls)" "Suc calls"]
  have step: "with_retry_loop mr bd bf func retries lst calls sleeps logged
      = with_retry_loop mr bd bf func (retries + 1) (Some (errs calls)) (Suc calls)
          (sleeps @ [bd * bf ^ nat retries])
          (logged @ [if is_rate_limit (errs calls)
                     then LogRateLimit (bd * bf ^ nat retries) (retries + 1) mr
                     else LogError (exc_str (errs calls)) (bd * bf ^ nat retries) (retries + 1) mr])"
    using lt here pow Suc.prems(1)
    by (subst with_retry_loop.simps) (simp add: Let_def)
  show ?case
    unfolding step calls up using IH by simp
qed

lemma with_retry_all_fail:
  assumes "0 \<le> max_retries"
    and "\<forall>j < nat max_retries. float_pow backoff_factor j \<noteq> None
            \<and> sleep_error (base_delay * backoff_factor ^ j) = None"
    and "\<forall>n. func n = Inl (errs n)"
  shows "rr_calls (with_retry max_retries base_delay backoff_factor func) = nat max_retries + 1"
    and "rr_sleeps (with_retry max_retries base_delay backoff_factor func)
           = map (\<lambda>attempt. base_delay * backoff_factor ^ (attempt - 1)) [1..<nat max_retries + 1]"
    and "rr_result (with_retry max_retries base_delay backoff_factor func)
           = Inl (Reraised (errs (nat max_retries)))"
proof -
  have m: "map (\<lambda>attempt. base_delay * backoff_factor ^ (attempt - 1)) [1..<nat max_retries + 1]
         = map (\<lambda>j. base_delay * backoff_factor ^ j) [0..<nat max_retries]"
  proof -
    have "[1..<nat max_retries + 1] = map Suc [0..<nat max_retries]"
      by (simp add: map_Suc_upt)
    then show ?thesis by (simp add: comp_def)
  qed
  have ok: "\<forall>j. nat 0 \<le> j \<and> j < nat max_retries
            \<longrightarrow> float_pow backoff_factor j \<noteq> None
              \<and> sleep_error (base_delay * backoff_factor ^ j) = None"
    using assms(2) by simp
  note loop = with_retry_loop_all_fail[where retries = 0 and mr = max_retries and lst = None
        and calls = 0 and sleeps = "[]" and logged = "[]" and bd = base_delay
        and bf = backoff_factor, OF assms(3) _ assms(1) ok]
  show "rr_calls (with_retry max_retries base_delay backoff_factor func) = nat max_retries + 1"
    unfolding with_retry_def using loop by simp
  show "rr_sleeps (with_retry max_retries base_delay backoff_factor func)
           = map (\<lambda>attempt. base_delay * backoff_factor ^ (attempt - 1)) [1..<nat max_retries + 1]"
    unfolding with_retry_def m using loop by simp
  show "rr_result (with_retry max_retries base_delay backoff_factor func)
           = Inl (Reraised (errs (nat max_retries)))"
    unfolding with_retry_def using loop by simp
qed

text \<open>
  Where a delay is not one that \<open>time.sleep\<close> accepts, the error of \<open>time.sleep\<close> leaves
  the wrapper before the next attempt: 3 retries with base delay 1 and factor \<open>10 ^ 10\<close>
  make two attempts.
\<close>

lemma with_retry_sleep_overflow:
  "rr_calls (with_retry 3 1 (10 ^ 10)
      (\<lambda>n. Inl \<lparr>exc_str = ''boom'', exc_status_code = None\<rparr> :: py_exception + unit)) = 2
   \<and> rr_result (with_retry 3 1 (10 ^ 10)
      (\<lambda>n. Inl \<lparr>exc_str = ''boom'', exc_status_code = None\<rparr> :: py_exception + unit))
      = Inl SleepOverflowError"
proof -
  let ?f = "\<lambda>n. Inl \<lparr>exc_str = ''boom'', exc_status_code = None\<rparr> :: py_exception + unit"
  have p0: "float_pow (10 ^ 10) (nat 0) = Some 1" by (simp add: float_pow_def float_limit_def)
  have p1: "float_pow (10 ^ 10) (nat 1) = Some (10 ^ 10)"
    by (simp add: float_pow_def float_limit_def)
  have s0: "sleep_error 1 = None" by (simp add: sleep_error_def sleep_limit_def)
  have nr: "\<not> is_rate_limit \<lparr>exc_str = ''boom'', exc_status_code = None\<rparr>" by code_simp
  have s1: "sleep_error (10 ^ 10) = Some SleepOverflowError"
    by (simp add: sleep_error_def sleep_limit_def)
  have "with_retry 3 1 (10 ^ 10) ?f
      = with_retry_loop 3 1 (10 ^ 10) ?f 1
          (Some \<lparr>exc_str = ''boom'', exc_status_code = None\<rparr>) 1 [1]
          [LogError ''boom'' 1 1 3]"
    unfolding with_retry_def
    using p0 s0 nr by (subst with_retry_loop.simps) (simp add: Let_def)
  also have "\<dots> = \<lparr>rr_result = Inl SleepOverflowError, rr_calls = 2, rr_sleeps = [1],
                    rr_log = [LogError ''boom'' 1 1 3, LogError ''boom'' (10 ^ 10) 2 3]\<rparr>"
    using p1 s1 nr by (subst with_retry_loop.simps) (simp add: Let_def)
  finally show ?thesis by simp
qed

text \<open>
  Claim C5. If the wrapped call fails on every invocation, \<open>max_retries \<ge> 0\<close>, and every
  delay is one that is computed and slept through without error (the power is a float,
  the delay is not negative and fits \<open>time.sleep\<close>), then \<open>with_retry\<close> invokes the call
  exactly \<open>max_retries + 1\<close> times, sleeps \<open>base_delay * backoff_factor ^ (attempt - 1)\<close>
  after failed attempt number \<open>attempt\<close> (for \<open>attempt = 1, \<dots>, max_retries\<close>) and
  re-raises the last error. Any other always-failing call, whatever its errors and so
  whatever their classification as rate-limit errors, is invoked as often and with the
  same delays: the classification only reaches the log.
\<close>

theorem with_retry_always_failing:
  assumes "0 \<le> max_retries"
    and "\<forall>j < nat max_retries. float_pow backoff_factor j \<noteq> None
            \<and> sleep_error (base_delay * backoff_factor ^ j) = None"
    and "\<forall>n. func n = Inl (errs n)"
  shows "rr_calls (with_retry max_retries base_delay backoff_factor func) = nat max_retries + 1
       \<and> rr_sleeps (with_retry max_retries base_delay backoff_factor func)
           = map (\<lambda>attempt. base_delay * backoff_factor ^ (attempt - 1)) [1..<nat max_retries + 1]
       \<and> rr_result (with_retry max_retries base_delay backoff_factor func)
           = Inl (Reraised (errs (nat max_retries)))
       \<and> (\<forall>other.
             rr_calls (with_retry max_retries base_delay backoff_factor (\<lambda>n. Inl (other n)))
               = rr_calls (with_retry max_retries base_delay backoff_factor func)
           \<and> rr_sleeps (with_retry max_retries base_delay backoff_factor (\<lambda>n. Inl (other n)))
               = rr_sleeps (with_retry max_retries base_delay backoff_factor func))"
proof -
  have "rr_calls (with_retry max_retries base_delay backoff_factor (\<lambda>n. Inl (other n)))
          = rr_calls (with_retry max_retries base_delay backoff_factor func)
      \<and> rr_sleeps (with_retry max_retries base_delay backoff_factor (\<lambda>n. Inl (other n)))
          = rr_sleeps (with_retry max_retries base_delay backoff_factor func)" for other
    using with_retry_all_fail(1,2)[OF assms(1,2), of "\<lambda>n. Inl (other n)" other]
      with_retry_all_fail(1,2)[OF assms] by simp
  then show ?thesis
    using with_retry_all_fail[OF assms] by blast
qed

text \<open>The defaults (3 retries, 2 seconds, factor 2) on a call that always fails: 4 attempts.\<close>

theorem with_retry_always_failing_witness:
  "rr_calls (with_retry 3 2 2 (\<lambda>n. Inl \<lparr>exc_str = ''429 Too Many Requests'', exc_status_code = None\<rparr>
                                  :: py_exception + unit)) = 4
   \<and> rr_sleeps (with_retry 3 2 2 (\<lambda>n. Inl \<lparr>exc_str = ''429 Too Many Requests'', exc_status_code = None\<rparr>
                                  :: py_exception + unit)) = [2, 4, 8]
   \<and> rr_result (with_retry 3 2 2 (\<lambda>n. Inl \<lparr>exc_str = ''429 Too Many Requests'', exc_status_code = None\<rparr>
                                  :: py_exception + unit))
       = Inl (Reraised \<lparr>exc_str = ''429 Too Many Requests'', exc_status_code = None\<rparr>)"
proof -
  have u: "[1..<nat 3 + 1] = [1, 2, 3]" by code_simp
  have h1: "(0::int) \<le> 3" by simp
  have h2: "\<forall>j < nat 3. float_pow 2 j \<noteq> None \<and> sleep_error (2 * 2 ^ j) = None"
    by (simp add: float_pow_def float_limit_def sleep_error_def sleep_limit_def
        less_Suc_eq numeral_3_eq_3)
  have h3: "\<forall>n. (Inl \<lparr>exc_str = ''429 Too Many Requests'', exc_status_code = None\<rparr> :: py_exception + unit)
           = Inl \<lparr>exc_str = ''429 Too Many Requests'', exc_status_code = None\<rparr>"
    by simp
  have "rr_calls (with_retry 3 2 2 (\<lambda>n. Inl \<lparr>exc_str = ''429 Too Many Requests'', exc_status_code = None\<rparr>
                                  :: py_exception + unit)) = nat 3 + 1
   \<and> rr_sleeps (with_retry 3 2 2 (\<lambda>n. Inl \<lparr>exc_str = ''429 Too Many Requests'', exc_status_code = None\<rparr>
                                  :: py_exception + unit))
       = map (\<lambda>attempt. 2 * 2 ^ (attempt - 1)) [1..<nat 3 + 1]
   \<and> rr_result (with_retry 3 2 2 (\<lambda>n. Inl \<lparr>exc_str = ''429 Too Many Requests'', exc_status_code = None\<rparr>
                                  :: py_exception + unit))
       = Inl (Reraised \<lparr>exc_str = ''429 Too Many Requests'', exc_status_code = None\<rparr>)"
    using with_retry_always_failing [OF h1 h2 h3] by blast
  then show ?thesis unfolding u by simp
qed

section \<open>Properties of the comment database\<close>

lemma like_percent_skip: "like ps cs \<Longrightarrow> like (CHR ''%'' # ps) cs"
  by (cases cs) simp_all

lemma like_percent_prepend: "like (CHR ''%'' # ps) cs \<Longrightarrow> like (CHR ''%'' # ps) (a @ cs)"
  by (induction a) simp_all

lemma like_percent_any: "like ''%'' cs"
  by (induction cs) simp_all

lemma like_literal_prefix: "like (s @ ''%'') (s @ c)"
proof (induction s)
  case Nil
  show ?case using like_percent_any by simp
next
  case (Cons x s)
  then show ?case by (simp add: like_percent_skip)
qed

lemma like_substring: "like (''%'' @ s @ ''%'') (a @ s @ c)"
proof -
  have "like (CHR ''%'' # s @ ''%'') (s @ c)"
    using like_literal_prefix by (rule like_percent_skip)
  then have "like (CHR ''%'' # s @ ''%'') (a @ s @ c)"
    by (rule like_percent_prepend)
  then show ?thesis by simp
qed

lemma assign_other: "c \<notin> fst ` set cvs \<Longrightarrow> assign cvs r c = r c"
  by (induction cvs arbitrary: r) auto

lemma comment_columns_names:
  "map fst (comment_columns cd kt se co ai st es er now) =
     [''subreddit'', ''author'', ''body'', ''created_utc'', ''permalink'', ''key_term'',
      ''sentiment'', ''confidence'', ''ai_response'', ''status'', ''email_sent'',
      ''email_recipient'', ''timestamp'']"
  by (simp add: comment_columns_def)

lemma comment_columns_known:
  "unknown_column (map fst (comment_columns cd kt se co ai st es er now) @ [''comment_id'']) = None"
  "unknown_column (''id'' # ''comment_id'' # map fst (comment_columns cd kt se co ai st es er now)) = None"
  unfolding comment_columns_names by (simp_all add: unknown_column_def comments_columns_def)

lemma comment_columns_keep:
  "assign (comment_columns cd kt se co ai st es er now) r ''id'' = r ''id''"
  "assign (comment_columns cd kt se co ai st es er now) r ''comment_id'' = r ''comment_id''"
proof -
  have "''id'' \<notin> fst ` set (comment_columns cd kt se co ai st es er now)"
    using comment_columns_names[of cd kt se co ai st es er now]
    by (simp flip: set_map)
  then show "assign (comment_columns cd kt se co ai st es er now) r ''id'' = r ''id''"
    by (rule assign_other)
  have "''comment_id'' \<notin> fst ` set (comment_columns cd kt se co ai st es er now)"
    using comment_columns_names[of cd kt se co ai st es er now]
    by (simp flip: set_map)
  then show "assign (comment_columns cd kt se co ai st es er now) r ''comment_id'' = r ''comment_id''"
    by (rule assign_other)
qed

lemma comment_columns_set:
  "assign (comment_columns cd kt se co ai st es er now) r ''status'' = SText st"
  "assign (comment_columns cd kt se co ai st es er now) r ''ai_response'' = opt_text ai"
  "assign (comment_columns cd kt se co ai st es er now) r ''sentiment'' = se"
  "assign (comment_columns cd kt se co ai st es er now) r ''confidence'' = co"
  "assign (comment_columns cd kt se co ai st es er now) r ''key_term'' = SText kt"
  "assign (comment_columns cd kt se co ai st es er now) r ''timestamp'' = SReal now"
  by (simp_all add: comment_columns_def)

lemma inserted_row_keys:
  "inserted_row cd kt se co ai st es er u now ''id'' = SText u"
  "inserted_row cd kt se co ai st es er u now ''comment_id'' = opt_text (cd_id cd)"
  by (simp_all add: inserted_row_def comment_columns_keep)

lemma sql_eq_text: "sql_eq v (SText s) = (v = SText s)"
  by (auto simp: sql_eq_def)

lemma unique_violation_inserted:
  "unique_violation (inserted_row cd kt se co ai st es er u now) tbl
     = (\<exists>r\<in>set tbl. r ''id'' = SText u \<or> sql_eq (r ''comment_id'') (opt_text (cd_id cd)))"
  by (simp add: unique_violation_def inserted_row_keys sql_eq_text)

lemma add_comment_cases:
  "add_comment cd kt se co ai st es er u now tbl =
     (if unique_violation (inserted_row cd kt se co ai st es er u now) tbl
      then (let tbl' = map (\<lambda>r. if sql_eq (r ''comment_id'') (opt_text (cd_id cd))
                                 then assign (comment_columns cd kt se co ai st es er now) r else r) tbl
            in case sql_select_one ''comment_id'' (opt_text (cd_id cd)) tbl' of
                 Some r \<Rightarrow> Inr (r ''id'', tbl') | None \<Rightarrow> Inr (SText u, tbl'))
      else Inr (SText u, tbl @ [inserted_row cd kt se co ai st es er u now]))"
  using comment_columns_known[of cd kt se co ai st es er now]
  by (simp add: add_comment_def sql_insert_def sql_update_def inserted_row_def Let_def)

lemma found_find: "found (List.find P xs) = (\<exists>x\<in>set xs. P x)"
  by (induction xs) (simp_all add: found_def)

lemma found_select_one:
  "found (sql_select_one col v tbl) = (\<exists>r\<in>set tbl. sql_eq (r col) v)"
  by (simp add: sql_select_one_def found_find)

lemma found_select_like:
  "found (sql_select_like col pat tbl)
     = (\<exists>r\<in>set tbl. case r col of SText s \<Rightarrow> like pat s | _ \<Rightarrow> False)"
  by (simp add: sql_select_like_def found_find)

lemma stripped_id_suffix: "\<exists>a. rid = a @ stripped_id rid"
proof (cases "startswith rid ''t1_''")
  case True
  then have "rid = take 3 rid @ stripped_id rid" by (simp add: stripped_id_def)
  then show ?thesis ..
next
  case False
  then have "rid = [] @ stripped_id rid" by (simp add: stripped_id_def)
  then show ?thesis ..
qed

lemma prefixed_id_cases: "prefixed_id rid = rid \<or> prefixed_id rid = ''t1_'' @ rid"
  by (simp add: prefixed_id_def)

lemma comment_exists_unfold:
  "rid \<noteq> [] \<Longrightarrow> comment_exists rid tbl =
     (found (sql_select_one ''comment_id'' (SText rid) tbl)
      \<or> (rid \<noteq> prefixed_id rid \<and> found (sql_select_one ''comment_id'' (SText (prefixed_id rid)) tbl))
      \<or> (rid \<noteq> stripped_id rid \<and> found (sql_select_one ''comment_id'' (SText (stripped_id rid)) tbl))
      \<or> found (sql_select_like ''comment_id'' (''%'' @ stripped_id rid @ ''%'') tbl))"
  unfolding comment_exists_def by simp

lemma like_stored:
  assumes "r \<in> set tbl" "r ''comment_id'' = SText (x @ rid)"
  shows "found (sql_select_like ''comment_id'' (''%'' @ stripped_id rid @ ''%'') tbl)"
proof -
  obtain a where a: "rid = a @ stripped_id rid" using stripped_id_suffix by blast
  have "like (''%'' @ stripped_id rid @ ''%'') ((x @ a) @ stripped_id rid @ [])"
    by (rule like_substring)
  moreover have "(x @ a) @ stripped_id rid @ [] = x @ rid" using a by simp
  ultimately have "like (''%'' @ stripped_id rid @ ''%'') (x @ rid)" by simp
  then show ?thesis
    unfolding found_select_like using assms by (intro bexI[of _ r]) simp_all
qed

lemma like_stored_stripped:
  assumes "r \<in> set tbl" "r ''comment_id'' = SText (x @ stripped_id rid)"
  shows "found (sql_select_like ''comment_id'' (''%'' @ stripped_id rid @ ''%'') tbl)"
proof -
  have "like (''%'' @ stripped_id rid @ ''%'') (x @ stripped_id rid @ [])"
    by (rule like_substring)
  then have "like (''%'' @ stripped_id rid @ ''%'') (x @ stripped_id rid)" by simp
  then show ?thesis
    unfolding found_select_like using assms by (intro bexI[of _ r]) simp_all
qed

text \<open>Every earlier probe of comment_exists is subsumed by its final LIKE probe.\<close>

lemma comment_exists_iff:
  "comment_exists rid tbl =
     (rid \<noteq> [] \<and> found (sql_select_like ''comment_id'' (''%'' @ stripped_id rid @ ''%'') tbl))"
proof (cases "rid = []")
  case True
  then show ?thesis by (simp add: comment_exists_def)
next
  case False
  have a: "found (sql_select_one ''comment_id'' (SText rid) tbl)
        \<Longrightarrow> found (sql_select_like ''comment_id'' (''%'' @ stripped_id rid @ ''%'') tbl)"
    unfolding found_select_one sql_eq_def using like_stored[of _ tbl "[]" rid] by auto
  have b: "found (sql_select_one ''comment_id'' (SText (prefixed_id rid)) tbl)
        \<Longrightarrow> found (sql_select_like ''comment_id'' (''%'' @ stripped_id rid @ ''%'') tbl)"
    unfolding found_select_one sql_eq_def
    using like_stored[of _ tbl "[]" rid] like_stored[of _ tbl "''t1_''" rid] prefixed_id_cases[of rid]
    by auto
  have c: "found (sql_select_one ''comment_id'' (SText (stripped_id rid)) tbl)
        \<Longrightarrow> found (sql_select_like ''comment_id'' (''%'' @ stripped_id rid @ ''%'') tbl)"
    unfolding found_select_one sql_eq_def using like_stored_stripped[of _ tbl "[]" rid] by auto
  show ?thesis
    unfolding comment_exists_unfold[OF False] using False a b c by blast
qed

lemma updated_keys:
  "map (\<lambda>r. r ''id'')
     (map (\<lambda>r. if P r then assign (comment_columns cd kt se co ai st es er now) r else r) tbl)
   = map (\<lambda>r. r ''id'') tbl"
  "map (\<lambda>r. r ''comment_id'')
     (map (\<lambda>r. if P r then assign (comment_columns cd kt se co ai st es er now) r else r) tbl)
   = map (\<lambda>r. r ''comment_id'') tbl"
  by (simp_all add: comment_columns_keep)

lemma records_of_by_key:
  "records_of b tbl = filter (\<lambda>r. r ''comment_id'' \<in> {SText b, SText (''t1_'' @ b)}) tbl"
  by (simp add: records_of_def)

lemma length_records_of:
  "length (records_of b tbl)
     = length (filter (\<lambda>k. k \<in> {SText b, SText (''t1_'' @ b)}) (map (\<lambda>r. r ''comment_id'') tbl))"
  by (simp add: records_of_by_key filter_map comp_def)

lemma records_of_updated:
  "length (records_of b
     (map (\<lambda>r. if P r then assign (comment_columns cd kt se co ai st es er now) r else r) tbl))
   = length (records_of b tbl)"
  unfolding length_records_of updated_keys ..

lemma records_of_snoc:
  "records_of b (tbl @ [r]) =
     records_of b tbl @ (if r ''comment_id'' = SText b \<or> r ''comment_id'' = SText (''t1_'' @ b)
                         then [r] else [])"
  by (simp add: records_of_def)

lemma stripped_id_prefixed: "stripped_id (''t1_'' @ b) = b"
  by (simp add: stripped_id_def startswith_def)

lemma stored_variant_exists:
  assumes "b \<noteq> []" "r \<in> set tbl"
    and "r ''comment_id'' = SText b \<or> r ''comment_id'' = SText (''t1_'' @ b)"
    and "v = b \<or> v = ''t1_'' @ b"
  shows "comment_exists v tbl"
proof -
  have v: "v \<noteq> []" using assms(1,4) by auto
  have "found (sql_select_like ''comment_id'' (''%'' @ stripped_id v @ ''%'') tbl)"
  proof (cases "v = b")
    case True
    show ?thesis
      using assms(3) like_stored[OF assms(2), of "[]" v] like_stored[OF assms(2), of "''t1_''" v] True
      by auto
  next
    case False
    then have vb: "v = ''t1_'' @ b" using assms(4) by simp
    show ?thesis
      using assms(3) like_stored[OF assms(2), of "[]" v]
        like_stored_stripped[OF assms(2), of "[]" v] vb stripped_id_prefixed[of b]
      by auto
  qed
  then show ?thesis using v by (simp add: comment_exists_iff)
qed

lemma records_exist:
  assumes "b \<noteq> []" "records_of b tbl \<noteq> []" "v = b \<or> v = ''t1_'' @ b"
  shows "comment_exists v tbl"
proof -
  obtain r where "r \<in> set (records_of b tbl)" using assms(2) by (cases "records_of b tbl") auto
  then have "r \<in> set tbl" "r ''comment_id'' = SText b \<or> r ''comment_id'' = SText (''t1_'' @ b)"
    by (auto simp: records_of_def)
  then show ?thesis using assms(1,3) by (intro stored_variant_exists[of b r tbl v])
qed

lemma ingest_step:
  assumes "b \<noteq> []" "cd_id (ig_comment g) = Some v" "v = b \<or> v = ''t1_'' @ b"
  shows "length (records_of b (ingest tbl g)) =
           (if \<not> comment_exists v tbl \<and> (\<forall>r\<in>set tbl. r ''id'' \<noteq> SText (ig_uuid4 g))
            then 1 else length (records_of b tbl))"
proof (cases "comment_exists v tbl")
  case True
  then show ?thesis using assms(2) by (simp add: ingest_def)
next
  case False
  then have none: "records_of b tbl = []" using records_exist[OF assms(1) _ assms(3)] by blast
  have nokey: "\<not> (\<exists>r\<in>set tbl. sql_eq (r ''comment_id'') (SText v))"
  proof
    assume "\<exists>r\<in>set tbl. sql_eq (r ''comment_id'') (SText v)"
    then obtain r where "r \<in> set tbl" "r ''comment_id'' = SText v" by (auto simp: sql_eq_def)
    then have "r \<in> set (records_of b tbl)" using assms(3) by (auto simp: records_of_def)
    then show False using none by simp
  qed
  show ?thesis
  proof (cases "\<forall>r\<in>set tbl. r ''id'' \<noteq> SText (ig_uuid4 g)")
    case True
    then have "\<not> unique_violation (inserted_row (ig_comment g) (ig_key_term g) (ig_sentiment g)
        (ig_confidence g) (ig_ai_response g) (ig_status g) False None (ig_uuid4 g) (ig_now g)) tbl"
      using nokey assms(2) by (simp add: unique_violation_inserted opt_text_def)
    then show ?thesis
      using False True assms(2,3) none
      by (simp add: ingest_def add_comment_cases records_of_snoc inserted_row_keys opt_text_def)
  next
    case collide: False
    let ?t = "map (\<lambda>r. if sql_eq (r ''comment_id'') (opt_text (cd_id (ig_comment g)))
                 then assign (comment_columns (ig_comment g) (ig_key_term g) (ig_sentiment g)
                   (ig_confidence g) (ig_ai_response g) (ig_status g) False None (ig_now g)) r
                 else r) tbl"
    have "unique_violation (inserted_row (ig_comment g) (ig_key_term g) (ig_sentiment g)
        (ig_confidence g) (ig_ai_response g) (ig_status g) False None (ig_uuid4 g) (ig_now g)) tbl"
      using collide by (auto simp: unique_violation_inserted)
    then have "\<exists>i. add_comment (ig_comment g) (ig_key_term g) (ig_sentiment g)
        (ig_confidence g) (ig_ai_response g) (ig_status g) False None (ig_uuid4 g) (ig_now g) tbl
        = Inr (i, ?t)"
      by (simp add: add_comment_cases Let_def split: option.splits)
    then have "ingest tbl g = ?t"
      using False assms(2) by (auto simp: ingest_def)
    then have "length (records_of b (ingest tbl g)) = length (records_of b tbl)"
      by (simp add: records_of_updated)
    moreover have "(if \<not> comment_exists v tbl \<and> (\<forall>r\<in>set tbl. r ''id'' \<noteq> SText (ig_uuid4 g))
            then 1 else length (records_of b tbl)) = length (records_of b tbl)"
      using collide by auto
    ultimately show ?thesis by simp
  qed
qed

lemma ingest_all_records:
  assumes "b \<noteq> []"
    and "\<forall>g\<in>set gs. cd_id (ig_comment g) = Some b \<or> cd_id (ig_comment g) = Some (''t1_'' @ b)"
  shows "(length (records_of b tbl) \<le> 1 \<longrightarrow> length (records_of b (ingest_all tbl gs)) \<le> 1)
       \<and> (length (records_of b tbl) = 1 \<longrightarrow> length (records_of b (ingest_all tbl gs)) = 1)"
  using assms(2)
proof (induction gs arbitrary: tbl)
  case Nil
  then show ?case by (simp add: ingest_all_def)
next
  case (Cons g gs)
  obtain v where v: "cd_id (ig_comment g) = Some v" "v = b \<or> v = ''t1_'' @ b"
    using Cons.prems by auto
  note step = ingest_step[OF assms(1) v, of tbl]
  have IH: "(length (records_of b (ingest tbl g)) \<le> 1
              \<longrightarrow> length (records_of b (ingest_all (ingest tbl g) gs)) \<le> 1)
          \<and> (length (records_of b (ingest tbl g)) = 1
              \<longrightarrow> length (records_of b (ingest_all (ingest tbl g) gs)) = 1)"
    using Cons.IH Cons.prems by simp
  have unfold: "ingest_all tbl (g # gs) = ingest_all (ingest tbl g) gs"
    by (simp add: ingest_all_def)
  have one: "comment_exists v tbl" if "length (records_of b tbl) = 1"
  proof -
    have "records_of b tbl \<noteq> []" using that by (cases "records_of b tbl") simp_all
    then show ?thesis using records_exist[OF assms(1) _ v(2), of tbl] by simp
  qed
  show ?case
    unfolding unfold using step IH one by (auto split: if_splits)
qed

lemma find_updated:
  "List.find (\<lambda>r. r ''comment_id'' = k)
     (map (\<lambda>r. if r ''comment_id'' = k
               then assign (comment_columns cd kt se co ai st es er now) r else r) tbl)
   = map_option (\<lambda>r. assign (comment_columns cd kt se co ai st es er now) r)
       (List.find (\<lambda>r. r ''comment_id'' = k) tbl)"
  by (induction tbl) (simp_all add: comment_columns_keep)

lemma add_comment_existing:
  assumes "r0 \<in> set tbl" "r0 ''comment_id'' = SText v" "cd_id cd = Some v"
  shows "\<exists>r1\<in>set tbl. r1 ''comment_id'' = SText v
          \<and> add_comment cd kt se co ai st es er u now tbl
              = Inr (r1 ''id'',
                     map (\<lambda>r. if r ''comment_id'' = SText v
                               then assign (comment_columns cd kt se co ai st es er now) r else r) tbl)"
proof -
  have viol: "unique_violation (inserted_row cd kt se co ai st es er u now) tbl"
    using assms by (auto simp: unique_violation_inserted opt_text_def sql_eq_text)
  have "List.find (\<lambda>r. r ''comment_id'' = SText v) tbl \<noteq> None"
    using assms(1,2) by (auto simp: find_None_iff)
  then obtain r1 where r1: "List.find (\<lambda>r. r ''comment_id'' = SText v) tbl = Some r1"
    by blast
  then have r1': "r1 \<in> set tbl" "r1 ''comment_id'' = SText v"
    by (auto simp: find_Some_iff)
  have "add_comment cd kt se co ai st es er u now tbl
          = Inr (r1 ''id'',
                 map (\<lambda>r. if r ''comment_id'' = SText v
                           then assign (comment_columns cd kt se co ai st es er now) r else r) tbl)"
    using viol r1 assms(3)
    by (simp add: add_comment_cases Let_def sql_select_one_def find_updated opt_text_def
        comment_columns_keep sql_eq_text)
  then show ?thesis using r1' by blast
qed

lemmas example_eval =
  example_ingestion_def ingest_all_def ingest_def comment_exists_def add_comment_def sql_insert_def
  sql_update_def unknown_column_def comments_columns_def comment_columns_def unique_violation_def
  sql_eq_def sql_select_one_def sql_select_like_def found_def startswith_def records_of_def
  opt_text_def get_text_def lower_char_def prefixed_id_def stripped_id_def Let_def

text \<open>
  Ingestion of the two spellings of one id. For a non-empty id \<open>b\<close>, ingesting any
  sequence of items whose ids are \<open>b\<close> or \<open>t1_b\<close> (dedup check, then \<open>add_comment\<close>)
  never leaves more than one row stored under \<open>b\<close> or \<open>t1_b\<close>; it leaves exactly one
  when the first dedup check answers false and the generated internal id is new. Once
  such a row is stored, \<open>comment_exists\<close> is true for both spellings. \<open>add_comment\<close>
  on a comment id that is already stored keeps the number of rows and overwrites the
  mutable fields of the rows with that id.
\<close>

lemma ingestion_at_most_one_record:
  assumes "b \<noteq> []"
    and "\<forall>g\<in>set gs. cd_id (ig_comment g) = Some b \<or> cd_id (ig_comment g) = Some (''t1_'' @ b)"
    and "length (records_of b tbl) \<le> 1"
  shows "length (records_of b (ingest_all tbl gs)) \<le> 1
       \<and> (\<forall>g gs' v. gs = g # gs' \<and> cd_id (ig_comment g) = Some v \<and> \<not> comment_exists v tbl
              \<and> (\<forall>r\<in>set tbl. r ''id'' \<noteq> SText (ig_uuid4 g))
            \<longrightarrow> length (records_of b (ingest_all tbl gs)) = 1)
       \<and> (records_of b (ingest_all tbl gs) \<noteq> []
            \<longrightarrow> comment_exists b (ingest_all tbl gs)
              \<and> comment_exists (''t1_'' @ b) (ingest_all tbl gs))
       \<and> (r0 \<in> set tbl0 \<and> r0 ''comment_id'' = SText v0 \<and> cd_id cd = Some v0
            \<longrightarrow> (\<exists>i tbl'. add_comment cd kt se co ai st es er u now tbl0 = Inr (i, tbl')
                  \<and> length tbl' = length tbl0
                  \<and> (\<forall>r\<in>set tbl'. r ''comment_id'' = SText v0
                        \<longrightarrow> r ''status'' = SText st \<and> r ''sentiment'' = se
                          \<and> r ''confidence'' = co \<and> r ''ai_response'' = opt_text ai)))"
proof (intro conjI)
  show "length (records_of b (ingest_all tbl gs)) \<le> 1"
    using ingest_all_records[OF assms(1,2), of tbl] assms(3) by blast
next
  show "\<forall>g gs' v. gs = g # gs' \<and> cd_id (ig_comment g) = Some v \<and> \<not> comment_exists v tbl
              \<and> (\<forall>r\<in>set tbl. r ''id'' \<noteq> SText (ig_uuid4 g))
            \<longrightarrow> length (records_of b (ingest_all tbl gs)) = 1"
  proof (intro allI impI)
    fix g gs' v
    assume h: "gs = g # gs' \<and> cd_id (ig_comment g) = Some v \<and> \<not> comment_exists v tbl
              \<and> (\<forall>r\<in>set tbl. r ''id'' \<noteq> SText (ig_uuid4 g))"
    then have v: "v = b \<or> v = ''t1_'' @ b" using assms(2) by auto
    have first: "length (records_of b (ingest tbl g)) = 1"
      using ingest_step[OF assms(1) _ v, of g tbl] h by simp
    have rest: "\<forall>g\<in>set gs'. cd_id (ig_comment g) = Some b \<or> cd_id (ig_comment g) = Some (''t1_'' @ b)"
      using assms(2) h by simp
    have "ingest_all tbl gs = ingest_all (ingest tbl g) gs'"
      using h by (simp add: ingest_all_def)
    then show "length (records_of b (ingest_all tbl gs)) = 1"
      using ingest_all_records[OF assms(1) rest, of "ingest tbl g"] first by simp
  qed
next
  show "records_of b (ingest_all tbl gs) \<noteq> []
            \<longrightarrow> comment_exists b (ingest_all tbl gs)
              \<and> comment_exists (''t1_'' @ b) (ingest_all tbl gs)"
    using records_exist[OF assms(1), of "ingest_all tbl gs"] by blast
next
  show "r0 \<in> set tbl0 \<and> r0 ''comment_id'' = SText v0 \<and> cd_id cd = Some v0
            \<longrightarrow> (\<exists>i tbl'. add_comment cd kt se co ai st es er u now tbl0 = Inr (i, tbl')
                  \<and> length tbl' = length tbl0
                  \<and> (\<forall>r\<in>set tbl'. r ''comment_id'' = SText v0
                        \<longrightarrow> r ''status'' = SText st \<and> r ''sentiment'' = se
                          \<and> r ''confidence'' = co \<and> r ''ai_response'' = opt_text ai))"
  proof
    assume h: "r0 \<in> set tbl0 \<and> r0 ''comment_id'' = SText v0 \<and> cd_id cd = Some v0"
    let ?t = "map (\<lambda>r. if r ''comment_id'' = SText v0
                     then assign (comment_columns cd kt se co ai st es er now) r else r) tbl0"
    obtain r1 where "add_comment cd kt se co ai st es er u now tbl0 = Inr (r1 ''id'', ?t)"
      using add_comment_existing[of r0 tbl0 v0 cd kt se co ai st es er u now] h by blast
    moreover have "length ?t = length tbl0" by simp
    moreover have "\<forall>r\<in>set ?t. r ''comment_id'' = SText v0
                        \<longrightarrow> r ''status'' = SText st \<and> r ''sentiment'' = se
                          \<and> r ''confidence'' = co \<and> r ''ai_response'' = opt_text ai"
      by (auto simp: comment_columns_set)
    ultimately show "\<exists>i tbl'. add_comment cd kt se co ai st es er u now tbl0 = Inr (i, tbl')
                  \<and> length tbl' = length tbl0
                  \<and> (\<forall>r\<in>set tbl'. r ''comment_id'' = SText v0
                        \<longrightarrow> r ''status'' = SText st \<and> r ''sentiment'' = se
                          \<and> r ''confidence'' = co \<and> r ''ai_response'' = opt_text ai)"
      by blast
  qed
qed

text \<open>
  Claim C1. \<open>comment_exists\<close> is documented to answer whether the comment exists, and its
  last probe is commented as catching other format variations of the id; that probe is
  \<open>comment_id LIKE '%id%'\<close>, which matches every stored id that merely contains the
  given one. With only \<open>xabc\<close> stored, \<open>comment_exists\<close> answers true for the id \<open>abc\<close>,
  which has no record; the dedup check skips the item, and however often \<open>abc\<close> is
  ingested the table stays as it was: no record for \<open>abc\<close>, not one.
\<close>

theorem ingestion_skips_unstored_id:
  "records_of ''abc'' (ingest_all [] [example_ingestion ''xabc'' ''u1'']) = []
   \<and> comment_exists ''abc'' (ingest_all [] [example_ingestion ''xabc'' ''u1''])
   \<and> length (records_of ''abc''
        (ingest_all [] [example_ingestion ''xabc'' ''u1'', example_ingestion ''abc'' ''u2'',
                        example_ingestion ''abc'' ''u3''])) = 0
   \<and> map (\<lambda>r. r ''comment_id'')
        (ingest_all [] [example_ingestion ''xabc'' ''u1'', example_ingestion ''abc'' ''u2'',
                        example_ingestion ''abc'' ''u3''])
       = [SText ''xabc'']"
  by (simp add: example_eval)

text \<open>
  Claim C10, as amended. When a row is already stored under the comment's id, in the
  spelling in which the comment carries it, \<open>add_comment\<close> takes the update branch: the
  table it leaves is the old one with the thirteen mutable columns of the rows of that id
  overwritten, no row is added, and the internal and natural ids of all rows stay as they
  were. It returns the internal id of a stored row with that id (of the given row, when
  it is the only one), not the freshly generated UUID.
\<close>

theorem add_comment_returns_existing_id:
  assumes "r0 \<in> set tbl" "r0 ''comment_id'' = SText v" "cd_id cd = Some v"
  shows "\<exists>i tbl'. add_comment cd kt se co ai st es er u now tbl = Inr (i, tbl')
           \<and> (\<exists>r\<in>set tbl. r ''comment_id'' = SText v \<and> i = r ''id'')
           \<and> ((\<forall>r\<in>set tbl. r ''comment_id'' = SText v \<longrightarrow> r ''id'' = r0 ''id'') \<longrightarrow> i = r0 ''id'')
           \<and> ((\<forall>r\<in>set tbl. r ''id'' \<noteq> SText u) \<longrightarrow> i \<noteq> SText u)
           \<and> tbl' = map (\<lambda>r. if r ''comment_id'' = SText v
                              then assign (comment_columns cd kt se co ai st es er now) r else r) tbl
           \<and> length tbl' = length tbl
           \<and> (\<forall>r\<in>set tbl'. r ''comment_id'' = SText v
                 \<longrightarrow> r ''status'' = SText st \<and> r ''sentiment'' = se \<and> r ''confidence'' = co
                   \<and> r ''ai_response'' = opt_text ai \<and> r ''key_term'' = SText kt
                   \<and> r ''timestamp'' = SReal now)
           \<and> map (\<lambda>r. r ''id'') tbl' = map (\<lambda>r. r ''id'') tbl
           \<and> map (\<lambda>r. r ''comment_id'') tbl' = map (\<lambda>r. r ''comment_id'') tbl"
proof -
  let ?t = "map (\<lambda>r. if r ''comment_id'' = SText v
                   then assign (comment_columns cd kt se co ai st es er now) r else r) tbl"
  obtain r1 where r1: "r1 \<in> set tbl" "r1 ''comment_id'' = SText v"
      "add_comment cd kt se co ai st es er u now tbl = Inr (r1 ''id'', ?t)"
    using add_comment_existing[OF assms, of kt se co ai st es er u now] by blast
  have "\<exists>r\<in>set tbl. r ''comment_id'' = SText v \<and> r1 ''id'' = r ''id''"
    using r1(1,2) by blast
  moreover have "(\<forall>r\<in>set tbl. r ''comment_id'' = SText v \<longrightarrow> r ''id'' = r0 ''id'')
                   \<longrightarrow> r1 ''id'' = r0 ''id''"
    using r1(1,2) by blast
  moreover have "(\<forall>r\<in>set tbl. r ''id'' \<noteq> SText u) \<longrightarrow> r1 ''id'' \<noteq> SText u"
    using r1(1) by blast
  moreover have "length ?t = length tbl" by simp
  moreover have "\<forall>r\<in>set ?t. r ''comment_id'' = SText v
                 \<longrightarrow> r ''status'' = SText st \<and> r ''sentiment'' = se \<and> r ''confidence'' = co
                   \<and> r ''ai_response'' = opt_text ai \<and> r ''key_term'' = SText kt
                   \<and> r ''timestamp'' = SReal now"
    by (auto simp: comment_columns_set)
  moreover have "map (\<lambda>r. r ''id'') ?t = map (\<lambda>r. r ''id'') tbl"
    by (rule updated_keys(1))
  moreover have "map (\<lambda>r. r ''comment_id'') ?t = map (\<lambda>r. r ''comment_id'') tbl"
    by (rule updated_keys(2))
  ultimately show ?thesis using r1(3) by blast
qed

text \<open>
  The id \<open>abc\<close> stored under \<open>u1\<close> with status \<open>pending_approval\<close>, and added again with
  the fresh UUID \<open>u2\<close> and status \<open>new\<close>.
\<close>

theorem add_comment_returns_existing_id_witness:
  "(case add_comment (ig_comment (example_ingestion ''abc'' ''u2'')) ''acme'' (SText ''neutral'')
           (SReal (1/2)) None ''new'' False None ''u2'' 1700000200
           (ingest_all [] [example_ingestion ''abc'' ''u1'']) of
      Inl e \<Rightarrow> False
    | Inr (i, tbl') \<Rightarrow> i = SText ''u1'' \<and> map (\<lambda>r. r ''id'') tbl' = [SText ''u1'']
        \<and> map (\<lambda>r. r ''status'') tbl' = [SText ''new''])"
proof -
  let ?tbl = "ingest_all [] [example_ingestion ''abc'' ''u1'']"
  let ?cd = "ig_comment (example_ingestion ''abc'' ''u2'')"
  have ids: "map (\<lambda>r. r ''id'') ?tbl = [SText ''u1'']"
    and keys: "map (\<lambda>r. r ''comment_id'') ?tbl = [SText ''abc'']"
    by (simp_all add: example_eval)
  then obtain r0 where tbl: "?tbl = [r0]" by (cases ?tbl) auto
  have h1: "r0 \<in> set ?tbl" and h2: "r0 ''comment_id'' = SText ''abc''" and id0: "r0 ''id'' = SText ''u1''"
    using tbl ids keys by simp_all
  have h3: "cd_id ?cd = Some ''abc''" by (simp add: example_ingestion_def)
  obtain i tbl' where r:
      "add_comment ?cd ''acme'' (SText ''neutral'') (SReal (1/2)) None ''new'' False None ''u2''
         1700000200 ?tbl = Inr (i, tbl')"
      "\<exists>r\<in>set ?tbl. r ''comment_id'' = SText ''abc'' \<and> i = r ''id''"
      "map (\<lambda>r. r ''id'') tbl' = map (\<lambda>r. r ''id'') ?tbl"
      "map (\<lambda>r. r ''comment_id'') tbl' = map (\<lambda>r. r ''comment_id'') ?tbl"
      "\<forall>r\<in>set tbl'. r ''comment_id'' = SText ''abc'' \<longrightarrow> r ''status'' = SText ''new''"
    using add_comment_returns_existing_id [OF h1 h2 h3, of "''acme''" "SText ''neutral''"
        "SReal (1/2)" None "''new''" False None "''u2''" 1700000200]
    by blast
  have "i = SText ''u1''" using r(2) tbl id0 by simp
  moreover obtain r1 where t': "tbl' = [r1]" using r(3) ids by (cases tbl') auto
  moreover have "r1 ''status'' = SText ''new''" using r(4,5) t' keys by simp
  ultimately show ?thesis using r(1,3) ids by simp
qed

text \<open>
  The claim as stated fails for an id stored in its other spelling: with \<open>t1_abc\<close> stored
  under \<open>u1\<close>, the id \<open>abc\<close> has a record, yet \<open>add_comment\<close> on \<open>abc\<close> inserts a second
  row and returns the fresh UUID \<open>u2\<close>.
\<close>

theorem add_comment_variant_id_counterexample:
  "records_of ''abc'' (ingest_all [] [example_ingestion ''t1_abc'' ''u1'']) \<noteq> []
   \<and> (case add_comment (ig_comment (example_ingestion ''abc'' ''u2'')) ''acme'' (SText ''neutral'')
           (SReal (1/2)) None ''new'' False None ''u2'' 1700000200
           (ingest_all [] [example_ingestion ''t1_abc'' ''u1'']) of
        Inl e \<Rightarrow> False
      | Inr (i, tbl') \<Rightarrow> i = SText ''u2''
          \<and> map (\<lambda>r. r ''id'') tbl' = [SText ''u1'', SText ''u2'']
          \<and> map (\<lambda>r. r ''comment_id'') tbl' = [SText ''t1_abc'', SText ''abc'']
          \<and> length (records_of ''abc'' tbl') = 2)"
  by (simp add: example_eval)

text \<open>
  Claim C9, on \<open>update_comment_approval\<close>. Each of its three \<open>UPDATE\<close> statements assigns
  the column \<open>human_approved\<close>, which the table created by \<open>_init_db\<close> does not have: the
  call raises \<open>sqlite3.OperationalError\<close> whether or not a row with the id exists, instead
  of returning a boolean.
\<close>

theorem update_comment_approval_raises:
  "update_comment_approval cid approved response tbl
     = Inl (OperationalError ''no such column: human_approved'')"
  by (simp add: update_comment_approval_def sql_update_def unknown_column_def comments_columns_def
      no_such_column_def Let_def)

lemma targeted_updates_return_rowcount:
  "update_comment_status cid st tbl
     = Inr (\<exists>r\<in>set tbl. r ''id'' = SText cid,
            map (\<lambda>r. if r ''id'' = SText cid then r(''status'' := SText st) else r) tbl)"
  "mark_email_sent cid rc tbl
     = Inr (\<exists>r\<in>set tbl. r ''id'' = SText cid,
            map (\<lambda>r. if r ''id'' = SText cid
                      then r(''email_sent'' := SInt 1, ''email_recipient'' := SText rc) else r) tbl)"
  by (simp_all add: update_comment_status_def mark_email_sent_def sql_update_def unknown_column_def
      comments_columns_def sql_eq_text length_greater_0_conv filter_empty_conv)


section \<open>Properties of the workflow and the monitor\<close>

lemma analyze_sentiment_returns: "\<exists>analyzed. analyze_sentiment sv state = Inr analyzed"
  by (simp add: analyze_sentiment_def split: sum.splits)








lemmas workflow_eval =
  example_services_def example_item_def example_positive_def example_negative_def empty_world_def
  monitor_process_comment_def process_comment_def run_workflow_def analyze_sentiment_def
  analyze_sentiment_try_def log_sentiment_def generate_response_def human_approval_def
  finalize_response_def initial_state_def invalid_update_error_def store_results_def
  send_email_def to_sql_def item_data_def truthy_def save_state_def load_state_def
  delete_state_def resume_workflow_after_approval_def mark_email_sent_def






lemma resumed_final_response:
  assumes "store cid = Some loaded"
  shows "map_option wr_final_response (fst (resume_workflow_after_approval sv cid approved store))
           = Some (case sv_resume_run sv (loaded\<lparr>human_approved := Some approved\<rparr>) of
                     Inr final_state \<Rightarrow> final_response final_state
                   | Inl e \<Rightarrow> if approved then response_draft loaded else None)"
  using assms
  by (simp add: resume_workflow_after_approval_def load_state_def split: sum.splits)

text \<open>
  The \<open>try\<close> branch: when the resumed run of the graph returns, the saved state is
  deleted, and a later resume on the same id finds no state and returns \<open>None\<close>.
\<close>

lemma resume_success_deletes_state:
  assumes "store cid = Some loaded"
    and "sv_resume_run sv (loaded\<lparr>human_approved := Some approved\<rparr>) = Inr final_state"
  shows "fst (resume_workflow_after_approval sv cid approved store) \<noteq> None
       \<and> snd (resume_workflow_after_approval sv cid approved store) cid = None
       \<and> resume_workflow_after_approval sv' cid approved'
             (snd (resume_workflow_after_approval sv cid approved store))
           = (None, snd (resume_workflow_after_approval sv cid approved store))"
  using assms
  by (simp add: resume_workflow_after_approval_def load_state_def delete_state_def)

text \<open>
  Claim C3. The resumed run is started with \<open>ainvoke(state, dataflow="finalize")\<close>, which
  the runtime rejects, so every resume of a saved state ends in the handler of
  \<open>resume_workflow_after_approval\<close>. The handler answers from the loaded state and does
  not call \<open>delete_state\<close>: after a resume, approved or rejected, the store of saved states
  is exactly as it was, and a second resume on the same id answers with a result again
  instead of \<open>None\<close>.
\<close>

theorem resume_keeps_state:
  assumes "store cid = Some loaded"
    and "sv_resume_run sv = (\<lambda>state. Inl e)"
  shows "fst (resume_workflow_after_approval sv cid approved store)
           = Some \<lparr>wr_comment_id = cid, wr_sentiment = sentiment_result loaded,
                   wr_response_draft = response_draft loaded,
                   wr_human_approved = Some approved,
                   wr_final_response = (if approved then response_draft loaded else None),
                   wr_analyzed_at = Some (sv_now sv), wr_error = Some (exc_str e)\<rparr>
       \<and> snd (resume_workflow_after_approval sv cid approved store) = store
       \<and> fst (resume_workflow_after_approval sv cid approved'
                (snd (resume_workflow_after_approval sv cid approved store))) \<noteq> None"
  using assms
  by (simp add: resume_workflow_after_approval_def load_state_def)

text \<open>
  Scenario A: the negative comment \<open>abc123\<close> is processed, its state is saved, and the
  approval is resumed twice.
\<close>

theorem resume_keeps_state_witness:
  "snd (process_comment (example_services example_negative)
          (example_item ''abc123'' ''Your product broke'') Map.empty) ''abc123'' \<noteq> None
   \<and> snd (resume_workflow_after_approval (example_services example_negative) ''abc123'' True
          (snd (process_comment (example_services example_negative)
                  (example_item ''abc123'' ''Your product broke'') Map.empty))) ''abc123'' \<noteq> None
   \<and> fst (resume_workflow_after_approval (example_services example_negative) ''abc123'' True
          (snd (resume_workflow_after_approval (example_services example_negative) ''abc123'' True
             (snd (process_comment (example_services example_negative)
                     (example_item ''abc123'' ''Your product broke'') Map.empty))))) \<noteq> None"
proof -
  let ?sv = "example_services example_negative"
  let ?c = "example_item ''abc123'' ''Your product broke''"
  let ?store = "snd (process_comment ?sv ?c Map.empty)"
  have h1: "?store ''abc123'' = Some (initial_state ?c)"
    by (simp add: workflow_eval)
  have h2: "sv_resume_run ?sv = (\<lambda>state. Inl unexpected_keyword_error)"
    by (simp add: example_services_def)
  show ?thesis
    using resume_keeps_state [where store = ?store and cid = "''abc123''"
        and loaded = "initial_state ?c" and sv = ?sv and approved = True
        and approved' = True, OF h1 h2] h1
    by simp
qed



text \<open>
  Every \<open>UPDATE\<close> of \<open>update_comment_approval\<close> names the column \<open>human_approved\<close>, which
  the schema of \<open>_init_db\<close> lacks.
\<close>

lemma approval_update_rejected:
  "update_comment_approval cid approved response tbl
     = Inl (OperationalError ''no such column: human_approved'')"
  by (simp add: update_comment_approval_def sql_update_def unknown_column_def comments_columns_def
      no_such_column_def Let_def)

text \<open>
  Claim C4, on the CommentRecord. \<open>handle_response_approval\<close> hands the decision to
  \<open>update_comment_approval\<close>, whose statement SQLite rejects; the error is caught and
  logged, so the comments table is left exactly as it was: the status of the record
  becomes neither \<open>approved\<close> nor \<open>rejected\<close>.
\<close>

theorem approval_leaves_record_unchanged:
  "comments (snd (handle_response_approval sv cid approved w)) = comments w"
  by (simp add: handle_response_approval_def approval_update_rejected Let_def
      split: prod.splits option.splits)

text \<open>
  Claim C7, as amended. The analyze stage always returns a state and never raises. When
  the classifier call raises, the result it stores is neutral with confidence 0.5 and an
  explanation made of the prefix \<open>Failed to analyze due to API error: \<close>, the first 100
  characters of the error text and three dots; when building the chain raises, the result
  is the same with the prefix \<open>Failed to analyze due to error: \<close>.
\<close>

theorem analyze_sentiment_degrades:
  "(\<exists>analyzed. analyze_sentiment sv state = Inr analyzed)
   \<and> (sv_chain_error sv = None \<and> sv_classifier sv (comment_text state) = Inl api_error
        \<longrightarrow> analyze_sentiment sv state
            = Inr (state\<lparr>sentiment_result :=
                           Some [(''sentiment'', PStr ''neutral''),
                                 (''confidence'', PNum (1/2)),
                                 (''explanation'',
                                    PStr (''Failed to analyze due to API error: ''
                                          @ take 100 (exc_str api_error) @ ''...''))],
                         analyzed_at := Some (sv_now sv)\<rparr>))
   \<and> (sv_chain_error sv = Some e
        \<longrightarrow> analyze_sentiment sv state
            = Inr (state\<lparr>sentiment_result :=
                           Some [(''sentiment'', PStr ''neutral''),
                                 (''confidence'', PNum (1/2)),
                                 (''explanation'',
                                    PStr (''Failed to analyze due to error: ''
                                          @ take 100 (exc_str e) @ ''...''))],
                         analyzed_at := Some (sv_now sv)\<rparr>))"
proof (intro conjI impI)
  show "\<exists>analyzed. analyze_sentiment sv state = Inr analyzed"
    by (rule analyze_sentiment_returns)
next
  assume "sv_chain_error sv = None \<and> sv_classifier sv (comment_text state) = Inl api_error"
  then show "analyze_sentiment sv state
            = Inr (state\<lparr>sentiment_result :=
                           Some [(''sentiment'', PStr ''neutral''),
                                 (''confidence'', PNum (1/2)),
                                 (''explanation'',
                                    PStr (''Failed to analyze due to API error: ''
                                          @ take 100 (exc_str api_error) @ ''...''))],
                         analyzed_at := Some (sv_now sv)\<rparr>)"
    by (simp add: analyze_sentiment_def analyze_sentiment_try_def api_error_result_def
        log_sentiment_def)
next
  assume "sv_chain_error sv = Some e"
  then show "analyze_sentiment sv state
            = Inr (state\<lparr>sentiment_result :=
                           Some [(''sentiment'', PStr ''neutral''),
                                 (''confidence'', PNum (1/2)),
                                 (''explanation'',
                                    PStr (''Failed to analyze due to error: ''
                                          @ take 100 (exc_str e) @ ''...''))],
                         analyzed_at := Some (sv_now sv)\<rparr>)"
    by (simp add: analyze_sentiment_def analyze_sentiment_try_def error_result_def)
qed

text \<open>A classifier whose call times out.\<close>

theorem analyze_sentiment_degrades_witness:
  "analyze_sentiment
     ((example_services example_negative)
        \<lparr>sv_classifier := \<lambda>text. Inl \<lparr>exc_str = ''Request timed out'', exc_status_code = None\<rparr>\<rparr>)
     (initial_state (example_item ''abc123'' ''Your product broke''))
   = Inr ((initial_state (example_item ''abc123'' ''Your product broke''))
            \<lparr>sentiment_result :=
               Some [(''sentiment'', PStr ''neutral''),
                     (''confidence'', PNum (1/2)),
                     (''explanation'', PStr ''Failed to analyze due to API error: Request timed out...'')],
             analyzed_at := Some 1700000100\<rparr>)"
proof -
  let ?sv = "(example_services example_negative)
        \<lparr>sv_classifier := \<lambda>text. Inl \<lparr>exc_str = ''Request timed out'', exc_status_code = None\<rparr>\<rparr>"
  let ?s = "initial_state (example_item ''abc123'' ''Your product broke'')"
  have h: "sv_chain_error ?sv = None
      \<and> sv_classifier ?sv (comment_text ?s)
          = Inl \<lparr>exc_str = ''Request timed out'', exc_status_code = None\<rparr>"
    by (simp add: example_services_def)
  have now: "sv_now ?sv = 1700000100" by (simp add: example_services_def)
  have "analyze_sentiment ?sv ?s
      = Inr (?s\<lparr>sentiment_result :=
                   Some [(''sentiment'', PStr ''neutral''),
                         (''confidence'', PNum (1/2)),
                         (''explanation'',
                            PStr (''Failed to analyze due to API error: ''
                                  @ take 100 (exc_str \<lparr>exc_str = ''Request timed out'',
                                                         exc_status_code = None\<rparr>) @ ''...''))],
                 analyzed_at := Some (sv_now ?sv)\<rparr>)"
    using analyze_sentiment_degrades [of ?sv ?s
        "\<lparr>exc_str = ''Request timed out'', exc_status_code = None\<rparr>"] h
    by blast
  then show ?thesis unfolding now by simp
qed

text \<open>
  The claim as stated fails on the confidence: for a classifier whose call raises, the
  stored confidence is 0.5, not 0.
\<close>

theorem analyze_sentiment_confidence_counterexample:
  "(case analyze_sentiment
          ((example_services example_negative)
             \<lparr>sv_classifier := \<lambda>text. Inl \<lparr>exc_str = ''Request timed out'',
                                               exc_status_code = None\<rparr>\<rparr>)
          (initial_state (example_item ''abc123'' ''Your product broke'')) of
      Inl e \<Rightarrow> None
    | Inr analyzed \<Rightarrow>
        (case sentiment_result analyzed of None \<Rightarrow> None | Some d \<Rightarrow> map_of d ''confidence''))
   \<noteq> Some (PNum 0)"
  by (simp add: example_services_def analyze_sentiment_def analyze_sentiment_try_def
      api_error_result_def log_sentiment_def)

end
